theory Spec2Isabelle
  imports Complex_Main
begin

section \<open>Values shared by all packages\<close>

subsection \<open>Decoded JSON values\<close>

text \<open>
  A value of Go's \<^verbatim>\<open>interface{}\<close> as \<^verbatim>\<open>encoding/json\<close> decodes it: \<^verbatim>\<open>nil\<close>,
  \<^verbatim>\<open>bool\<close>, \<^verbatim>\<open>float64\<close>, \<^verbatim>\<open>string\<close>, \<^verbatim>\<open>[]interface{}\<close> and
  \<^verbatim>\<open>map[string]interface{}\<close>. A \<^verbatim>\<open>float64\<close> that comes out of the decoder is finite,
  so it is a rational number; \<open>JNum\<close> carries that exact value. The same type describes the
  JSON documents the gateway writes (request bodies for the upstreams, response bodies
  for the client): an object is a finite map from keys to values.
\<close>

datatype json =
    JNull
  | JBool bool
  | JNum rat
  | JStr string
  | JArr "json list"
  | JObj "string \<Rightarrow> json option"

subsection \<open>Conversions and formatting\<close>

text \<open>
  \<^verbatim>\<open>int(x)\<close> for a \<^verbatim>\<open>float64\<close> \<open>x\<close> discards the fraction (truncation towards zero). When
  the truncated value does not fit the 64-bit \<^verbatim>\<open>int\<close> the conversion still succeeds and
  the result is implementation-dependent: that result is the parameter \<open>impl\<close>.
\<close>

definition toward_zero :: "rat \<Rightarrow> int" where
  "toward_zero x = (if 0 \<le> x then \<lfloor>x\<rfloor> else \<lceil>x\<rceil>)"

definition float64_to_int :: "(rat \<Rightarrow> int) \<Rightarrow> rat \<Rightarrow> int" where
  "float64_to_int impl x =
     (if - (2 ^ 63) \<le> toward_zero x \<and> toward_zero x < 2 ^ 63 then toward_zero x else impl x)"

text \<open>The verb \<^verbatim>\<open>%d\<close> of \<^verbatim>\<open>fmt\<close>: decimal digits, with a minus sign for a negative number.\<close>

fun utoa :: "nat \<Rightarrow> string" where
  "utoa n =
     (if n < 10 then [''0123456789'' ! n]
      else utoa (n div 10) @ [''0123456789'' ! (n mod 10)])"

declare utoa.simps [simp del]

definition itoa :: "int \<Rightarrow> string" where
  "itoa i = (if i < 0 then CHR ''-'' # utoa (nat (- i)) else utoa (nat i))"

subsection \<open>The HTTP client\<close>

text \<open>
  A call handed to \<^verbatim>\<open>http.Client\<close> (\<^verbatim>\<open>Do\<close>, \<^verbatim>\<open>Get\<close> or \<^verbatim>\<open>Post\<close>): method, URL, the
  headers the code sets, and the marshalled JSON body (\<open>None\<close> when the call has no body).
\<close>

record http_request =
  req_method :: string
  req_url :: string
  req_headers :: "(string \<times> string) list"
  req_body :: "json option"

text \<open>
  What the call gives back. \<open>Unreachable cause\<close>: the client returned an error (DNS,
  connection refused, timeout, unusable URL). \<open>Truncated status cause\<close>: a response
  arrived and \<^verbatim>\<open>io.ReadAll\<close> on its body failed. \<open>Replied status body\<close>: status and the
  whole body.
\<close>

datatype http_result =
    Unreachable string
  | Truncated int string
  | Replied int string

text \<open>
  The upstream services are outside the gateway. An upstream answers a call knowing every
  call handed to the HTTP client so far, the current one last; the list of those calls is
  the only state that is threaded through the model. The clients never retry.
\<close>

type_synonym trace = "http_request list"

type_synonym upstream = "trace \<Rightarrow> http_result"

definition Do :: "upstream \<Rightarrow> http_request \<Rightarrow> trace \<Rightarrow> http_result \<times> trace" where
  "Do up req tr = (up (tr @ [req]), tr @ [req])"

subsection \<open>Errors\<close>

text \<open>
  Every \<^verbatim>\<open>fmt.Errorf\<close> of the three client packages is a constructor; \<open>Error\<close> gives the
  message \<^verbatim>\<open>err.Error()\<close> returns. The code has no other error type: the handlers only
  see that an error is present, and its message.
\<close>

datatype error =
    FetchDevicesFailed string
  | ReadResponseFailed string
  | GoveeAPIError int string
  | HTTPError int string
  | ParseResponseFailed string
  | CreateRequestFailed string
  | QueryStateFailed string
  | ParseStateFailed string
  | BrightnessOutOfRange int
  | ColorOutOfRange int int int
  | SendControlFailed string
  | GoveeRejected string int
  | FireTVUnreachable string
  | ReadDiscoveryFailed string
  | DiscoveryFailedDetail string
  | DiscoveryFailedStatus int
  | ParseDiscoveryFailed string
  | ReadPairFailed string
  | PairingFailedDetail string
  | PairingFailedStatus int
  | ParsePairFailed string
  | ReadCommandFailed string
  | CommandFailedDetail string
  | CommandFailedStatus int
  | ParseCommandFailed string
  | BridgeUnreachableAt string string
  | BridgeUnreachable string
  | ReadBridgeFailed string
  | BridgeStatus int string
  | ParseBridgeFailed string
  | CameraNotFound string
  | BridgeStatusForCamera int string

fun Error :: "error \<Rightarrow> string" where
  "Error (FetchDevicesFailed cause) = ''failed to fetch devices: '' @ cause"
| "Error (ReadResponseFailed cause) = ''failed to read response: '' @ cause"
| "Error (GoveeAPIError code msg) = ''govee API error (code '' @ itoa code @ ''): '' @ msg"
| "Error (HTTPError status body) = ''HTTP error '' @ itoa status @ '': '' @ body"
| "Error (ParseResponseFailed cause) = ''failed to parse response: '' @ cause"
| "Error (CreateRequestFailed cause) = ''failed to create request: '' @ cause"
| "Error (QueryStateFailed cause) = ''failed to query device state: '' @ cause"
| "Error (ParseStateFailed cause) = ''failed to parse state response: '' @ cause"
| "Error (BrightnessOutOfRange level) =
     ''brightness must be between 0 and 100, got '' @ itoa level"
| "Error (ColorOutOfRange r g b) =
     ''RGB values must be between 0 and 255, got R='' @ itoa r @ '' G='' @ itoa g
       @ '' B='' @ itoa b"
| "Error (SendControlFailed cause) = ''failed to send control command: '' @ cause"
| "Error (GoveeRejected msg code) = ''govee API error: '' @ msg @ '' (code '' @ itoa code @ '')''"
| "Error (FireTVUnreachable cause) = ''failed to reach Fire TV service: '' @ cause"
| "Error (ReadDiscoveryFailed cause) = ''failed to read discovery response: '' @ cause"
| "Error (DiscoveryFailedDetail detail) = ''discovery failed: '' @ detail"
| "Error (DiscoveryFailedStatus status) = ''discovery failed with status '' @ itoa status"
| "Error (ParseDiscoveryFailed cause) = ''failed to parse discovery response: '' @ cause"
| "Error (ReadPairFailed cause) = ''failed to read pair response: '' @ cause"
| "Error (PairingFailedDetail detail) = ''pairing failed: '' @ detail"
| "Error (PairingFailedStatus status) = ''pairing failed with status '' @ itoa status"
| "Error (ParsePairFailed cause) = ''failed to parse pair response: '' @ cause"
| "Error (ReadCommandFailed cause) = ''failed to read command response: '' @ cause"
| "Error (CommandFailedDetail detail) = ''command failed: '' @ detail"
| "Error (CommandFailedStatus status) = ''command failed with status '' @ itoa status"
| "Error (ParseCommandFailed cause) = ''failed to parse command response: '' @ cause"
| "Error (BridgeUnreachableAt url cause) =
     ''failed to reach Wyze Bridge at '' @ url @ '': '' @ cause"
| "Error (BridgeUnreachable cause) = ''failed to reach Wyze Bridge: '' @ cause"
| "Error (ReadBridgeFailed cause) = ''failed to read bridge response: '' @ cause"
| "Error (BridgeStatus status body) =
     ''bridge returned status '' @ itoa status @ '': '' @ body"
| "Error (ParseBridgeFailed cause) = ''failed to parse bridge response: '' @ cause"
| "Error (CameraNotFound nameURI) = ''camera '' @ [CHR 0x27] @ nameURI @ [CHR 0x27] @ '' not found''"
| "Error (BridgeStatusForCamera status nameURI) =
     ''bridge returned status '' @ itoa status @ '' for camera '' @ [CHR 0x27] @ nameURI
       @ [CHR 0x27]"

subsection \<open>Responses of the gateway\<close>

text \<open>
  What a handler writes: the status, the \<^verbatim>\<open>Content-Type\<close> header and the body. \<open>Text\<close> is
  a body written as plain text; \<open>Json\<close> is the document \<^verbatim>\<open>json.NewEncoder(w).Encode\<close>
  writes.
\<close>

datatype body = Text string | Json json

record response =
  resp_status :: int
  resp_contentType :: string
  resp_body :: body

text \<open>
  \<^verbatim>\<open>http.Error(w, msg, code)\<close> of \<^verbatim>\<open>net/http\<close>: a \<^verbatim>\<open>text/plain\<close> response whose body is
  the message and a newline.
\<close>

definition http_Error :: "string \<Rightarrow> int \<Rightarrow> response" where
  "http_Error msg code =
     \<lparr>resp_status = code, resp_contentType = ''text/plain; charset=utf-8'',
       resp_body = Text (msg @ [CHR 0x0A])\<rparr>"

definition write_json :: "int \<Rightarrow> json \<Rightarrow> response" where
  "write_json code doc = \<lparr>resp_status = code, resp_contentType = ''application/json'', resp_body = Json doc\<rparr>"

section \<open>Package govee: the cloud light API\<close>

subsection \<open>Models\<close>

text \<open>
  The structs of \<^verbatim>\<open>govee/models.go\<close>. Field names carry a prefix because record fields
  share one name space: \<open>dev_\<close> for \<^verbatim>\<open>Device\<close>, \<open>er_\<close> for \<^verbatim>\<open>ErrorResponse\<close>, \<open>cres_\<close>
  for \<^verbatim>\<open>ControlResponse\<close>, \<open>dsr_\<close> for \<^verbatim>\<open>DeviceStateResponse\<close>, \<open>dres_\<close> for
  \<^verbatim>\<open>DevicesResponse\<close>; the fields of the anonymous struct \<^verbatim>\<open>Data\<close> are flattened. A
  slice that may be \<^verbatim>\<open>nil\<close> and is encoded later is an optional list (\<open>None\<close> for
  \<^verbatim>\<open>nil\<close>).
\<close>

record govee_Device =
  dev_Device :: string
  dev_Model :: string
  dev_DeviceName :: string
  dev_Controllable :: bool
  dev_Retrievable :: bool
  dev_SupportCmds :: "string list option"

record govee_DevicesResponse =
  dres_Data_Devices :: "govee_Device list"
  dres_Message :: string
  dres_Code :: int

record govee_ColorValue =
  cv_R :: int
  cv_G :: int
  cv_B :: int

record govee_ControlResponse =
  cres_Code :: int
  cres_Message :: string

record govee_ErrorResponse =
  er_Code :: int
  er_Message :: string

record govee_DeviceStateResponse =
  dsr_Data_Device :: string
  dsr_Data_Model :: string
  dsr_Data_Properties :: "(string \<Rightarrow> json option) list"
  dsr_Message :: string
  dsr_Code :: int

text \<open>
  The dynamic values \<^verbatim>\<open>sendControlCommand\<close> receives in its \<^verbatim>\<open>interface{}\<close> parameter:
  a string (\<^verbatim>\<open>"on"\<close>, \<^verbatim>\<open>"off"\<close>), an \<^verbatim>\<open>int\<close> or a \<^verbatim>\<open>ColorValue\<close>.
\<close>

datatype cmd_value = VString string | VInt int | VColor govee_ColorValue

fun marshal_value :: "cmd_value \<Rightarrow> json" where
  "marshal_value (VString s) = JStr s"
| "marshal_value (VInt i) = JNum (of_int i)"
| "marshal_value (VColor c) =
     JObj [''r'' \<mapsto> JNum (of_int (cv_R c)), ''g'' \<mapsto> JNum (of_int (cv_G c)),
           ''b'' \<mapsto> JNum (of_int (cv_B c))]"

text \<open>\<^verbatim>\<open>json.Marshal\<close> of \<^verbatim>\<open>ControlRequest{Device, Model, Cmd: ControlCommand{Name, Value}}\<close>.\<close>

definition marshal_ControlRequest :: "string \<Rightarrow> string \<Rightarrow> string \<Rightarrow> cmd_value \<Rightarrow> json" where
  "marshal_ControlRequest deviceID model cmdName v =
     JObj [''device'' \<mapsto> JStr deviceID, ''model'' \<mapsto> JStr model,
           ''cmd'' \<mapsto> JObj [''name'' \<mapsto> JStr cmdName, ''value'' \<mapsto> marshal_value v]]"

subsection \<open>Library functions taken as parameters\<close>

text \<open>
  The results of \<^verbatim>\<open>json.Unmarshal\<close> on an upstream body, of \<^verbatim>\<open>http.NewRequest\<close> on a URL
  built from caller input, and of \<^verbatim>\<open>fmt.Sscanf\<close> with \<^verbatim>\<open>%d\<close> are not computed here: each
  is a field of this record, and every theorem holds for all of them. For a decoder,
  \<open>Inl cause\<close> is the error returned and \<open>Inr v\<close> the decoded struct; where the code only
  tests whether decoding succeeded the result is an option.
\<close>

record govee_library =
  unmarshal_ErrorResponse :: "string \<Rightarrow> govee_ErrorResponse option"
  unmarshal_DevicesResponse :: "string \<Rightarrow> string + govee_DevicesResponse"
  unmarshal_DeviceStateResponse :: "string \<Rightarrow> string + govee_DeviceStateResponse"
  unmarshal_ControlResponse :: "string \<Rightarrow> string + govee_ControlResponse"
  NewRequest_error :: "string \<Rightarrow> string option"
  Sscanf_d :: "string \<Rightarrow> int option"

subsection \<open>Client\<close>

definition baseURL :: string where
  "baseURL = ''https://developer-api.govee.com''"

definition devicesEndpoint :: string where
  "devicesEndpoint = ''/v1/devices''"

definition controlEndpoint :: string where
  "controlEndpoint = ''/v1/devices/control''"

definition stateEndpoint :: string where
  "stateEndpoint = ''/v1/devices/state''"

text \<open>
  \<^verbatim>\<open>Client\<close> holds the API key and an \<^verbatim>\<open>http.Client\<close> with a fixed timeout; the HTTP
  client is the upstream parameter of every operation. \<^verbatim>\<open>http.NewRequest\<close> on one of the
  constant URLs and \<^verbatim>\<open>json.Marshal\<close> of a control request cannot fail, so those two
  branches of the source have no counterpart.
\<close>

record govee_Client =
  apiKey :: string

definition govee_error_of_reply :: "govee_library \<Rightarrow> int \<Rightarrow> string \<Rightarrow> error" where
  "govee_error_of_reply lib st body =
     (case unmarshal_ErrorResponse lib body of
        Some errResp \<Rightarrow> GoveeAPIError (er_Code errResp) (er_Message errResp)
      | None \<Rightarrow> HTTPError st body)"

definition devices_request :: "govee_Client \<Rightarrow> http_request" where
  "devices_request c =
     \<lparr>req_method = ''GET'', req_url = baseURL @ devicesEndpoint,
      req_headers = [(''Govee-API-Key'', apiKey c)], req_body = None\<rparr>"

definition govee_GetDevices ::
  "govee_library \<Rightarrow> upstream \<Rightarrow> govee_Client \<Rightarrow> trace \<Rightarrow> (error + govee_Device list) \<times> trace" where
  "govee_GetDevices lib up c tr =
     (let (res, tr') = Do up (devices_request c) tr
      in case res of
           Unreachable cause \<Rightarrow> (Inl (FetchDevicesFailed cause), tr')
         | Truncated st cause \<Rightarrow> (Inl (ReadResponseFailed cause), tr')
         | Replied st body \<Rightarrow>
             if st \<noteq> 200 then (Inl (govee_error_of_reply lib st body), tr')
             else (case unmarshal_DevicesResponse lib body of
                     Inl cause \<Rightarrow> (Inl (ParseResponseFailed cause), tr')
                   | Inr devicesResp \<Rightarrow> (Inr (dres_Data_Devices devicesResp), tr')))"

definition govee_GetDeviceState ::
  "govee_library \<Rightarrow> upstream \<Rightarrow> govee_Client \<Rightarrow> string \<Rightarrow> string \<Rightarrow> trace
     \<Rightarrow> (error + govee_DeviceStateResponse) \<times> trace" where
  "govee_GetDeviceState lib up c deviceID model tr =
     (let url = baseURL @ stateEndpoint @ ''?device='' @ deviceID @ ''&model='' @ model
      in case NewRequest_error lib url of
           Some cause \<Rightarrow> (Inl (CreateRequestFailed cause), tr)
         | None \<Rightarrow>
             (let req = \<lparr>req_method = ''GET'', req_url = url,
                         req_headers = [(''Govee-API-Key'', apiKey c)], req_body = None\<rparr>;
                  (res, tr') = Do up req tr
              in case res of
                   Unreachable cause \<Rightarrow> (Inl (QueryStateFailed cause), tr')
                 | Truncated st cause \<Rightarrow> (Inl (ReadResponseFailed cause), tr')
                 | Replied st body \<Rightarrow>
                     if st \<noteq> 200 then (Inl (govee_error_of_reply lib st body), tr')
                     else (case unmarshal_DeviceStateResponse lib body of
                             Inl cause \<Rightarrow> (Inl (ParseStateFailed cause), tr')
                           | Inr stateResp \<Rightarrow> (Inr stateResp, tr'))))"

definition control_request :: "govee_Client \<Rightarrow> string \<Rightarrow> string \<Rightarrow> string \<Rightarrow> cmd_value \<Rightarrow> http_request" where
  "control_request c deviceID model cmdName v =
     \<lparr>req_method = ''PUT'', req_url = baseURL @ controlEndpoint,
      req_headers = [(''Govee-API-Key'', apiKey c), (''Content-Type'', ''application/json'')],
      req_body = Some (marshal_ControlRequest deviceID model cmdName v)\<rparr>"

definition sendControlCommand ::
  "govee_library \<Rightarrow> upstream \<Rightarrow> govee_Client \<Rightarrow> string \<Rightarrow> string \<Rightarrow> string \<Rightarrow> cmd_value \<Rightarrow> trace
     \<Rightarrow> error option \<times> trace" where
  "sendControlCommand lib up c deviceID model cmdName v tr =
     (let (res, tr') = Do up (control_request c deviceID model cmdName v) tr
      in case res of
           Unreachable cause \<Rightarrow> (Some (SendControlFailed cause), tr')
         | Truncated st cause \<Rightarrow> (Some (ReadResponseFailed cause), tr')
         | Replied st body \<Rightarrow>
             if st \<noteq> 200 then (Some (govee_error_of_reply lib st body), tr')
             else (case unmarshal_ControlResponse lib body of
                     Inl cause \<Rightarrow> (Some (ParseResponseFailed cause), tr')
                   | Inr controlResp \<Rightarrow>
                       if cres_Code controlResp \<noteq> 200
                       then (Some (GoveeRejected (cres_Message controlResp)
                                     (cres_Code controlResp)), tr')
                       else (None, tr')))"

definition TurnOn ::
  "govee_library \<Rightarrow> upstream \<Rightarrow> govee_Client \<Rightarrow> string \<Rightarrow> string \<Rightarrow> trace \<Rightarrow> error option \<times> trace" where
  "TurnOn lib up c deviceID model tr =
     sendControlCommand lib up c deviceID model ''turn'' (VString ''on'') tr"

definition TurnOff ::
  "govee_library \<Rightarrow> upstream \<Rightarrow> govee_Client \<Rightarrow> string \<Rightarrow> string \<Rightarrow> trace \<Rightarrow> error option \<times> trace" where
  "TurnOff lib up c deviceID model tr =
     sendControlCommand lib up c deviceID model ''turn'' (VString ''off'') tr"

definition SetBrightness ::
  "govee_library \<Rightarrow> upstream \<Rightarrow> govee_Client \<Rightarrow> string \<Rightarrow> string \<Rightarrow> int \<Rightarrow> trace
     \<Rightarrow> error option \<times> trace" where
  "SetBrightness lib up c deviceID model level tr =
     (if level < 0 \<or> level > 100 then (Some (BrightnessOutOfRange level), tr)
      else sendControlCommand lib up c deviceID model ''brightness'' (VInt level) tr)"

definition SetColor ::
  "govee_library \<Rightarrow> upstream \<Rightarrow> govee_Client \<Rightarrow> string \<Rightarrow> string \<Rightarrow> int \<Rightarrow> int \<Rightarrow> int \<Rightarrow> trace
     \<Rightarrow> error option \<times> trace" where
  "SetColor lib up c deviceID model r g b tr =
     (if r < 0 \<or> r > 255 \<or> g < 0 \<or> g > 255 \<or> b < 0 \<or> b > 255
      then (Some (ColorOutOfRange r g b), tr)
      else sendControlCommand lib up c deviceID model ''color''
             (VColor \<lparr>cv_R = r, cv_G = g, cv_B = b\<rparr>) tr)"

section \<open>Package handlers: the cloud light endpoints\<close>

text \<open>
  A handler receives the request method, what \<^verbatim>\<open>json.NewDecoder(r.Body).Decode\<close> made of
  the body (\<open>None\<close> when it returned an error) or the query parameters, and the clients
  it was built with. It returns the response it writes and the calls it handed to the
  HTTP client. \<open>now\<close> is \<^verbatim>\<open>time.Now().Format(time.RFC3339)\<close>. Log lines are left out: they
  are written nowhere in a response.
\<close>

subsection \<open>Structs\<close>

text \<open>
  \<open>dr_\<close> prefixes the fields of \<^verbatim>\<open>DeviceResponse\<close>, \<open>ctl_\<close> those of \<^verbatim>\<open>ControlRequest\<close>
  (a field absent from the body has its zero value: the empty string, \<open>JNull\<close>, \<open>0\<close>),
  \<open>cr_\<close> those of \<^verbatim>\<open>ControlResponse\<close>, \<open>sr_\<close> those of \<^verbatim>\<open>StateResponse\<close>.
\<close>

record DeviceResponse =
  dr_ID :: string
  dr_Name :: string
  dr_Model :: string
  dr_Type :: string
  dr_Capabilities :: "string list option"
  dr_APIKeyIndex :: int

record ControlRequest =
  ctl_DeviceID :: string
  ctl_Model :: string
  ctl_Command :: string
  ctl_Value :: json
  ctl_APIKeyIndex :: int

record ControlResponse =
  cr_Success :: bool
  cr_Message :: string
  cr_DeviceID :: string
  cr_Timestamp :: string

record StateResponse =
  sr_DeviceID :: string
  sr_IsOn :: bool

definition encode_DeviceResponse :: "DeviceResponse \<Rightarrow> json" where
  "encode_DeviceResponse d =
     JObj [''id'' \<mapsto> JStr (dr_ID d), ''name'' \<mapsto> JStr (dr_Name d),
           ''model'' \<mapsto> JStr (dr_Model d), ''type'' \<mapsto> JStr (dr_Type d),
           ''capabilities'' \<mapsto>
              (case dr_Capabilities d of None \<Rightarrow> JNull | Some cs \<Rightarrow> JArr (map JStr cs)),
           ''apiKeyIndex'' \<mapsto> JNum (of_int (dr_APIKeyIndex d))]"

text \<open>A \<^verbatim>\<open>nil\<close> slice is encoded as \<^verbatim>\<open>null\<close>; \<^verbatim>\<open>allDevices\<close> is \<^verbatim>\<open>nil\<close> until the first append.\<close>

definition encode_DeviceResponses :: "DeviceResponse list \<Rightarrow> json" where
  "encode_DeviceResponses ds = (if ds = [] then JNull else JArr (map encode_DeviceResponse ds))"

definition encode_ControlResponse :: "ControlResponse \<Rightarrow> json" where
  "encode_ControlResponse r =
     JObj [''success'' \<mapsto> JBool (cr_Success r), ''message'' \<mapsto> JStr (cr_Message r),
           ''deviceId'' \<mapsto> JStr (cr_DeviceID r), ''timestamp'' \<mapsto> JStr (cr_Timestamp r)]"

definition encode_StateResponse :: "StateResponse \<Rightarrow> json" where
  "encode_StateResponse r =
     JObj [''deviceId'' \<mapsto> JStr (sr_DeviceID r), ''isOn'' \<mapsto> JBool (sr_IsOn r)]"

subsection \<open>HandleGetDevices\<close>

definition tag_device :: "nat \<Rightarrow> govee_Device \<Rightarrow> DeviceResponse" where
  "tag_device apiKeyIndex device =
     \<lparr>dr_ID = dev_Device device, dr_Name = dev_DeviceName device, dr_Model = dev_Model device,
      dr_Type = ''light'', dr_Capabilities = dev_SupportCmds device,
      dr_APIKeyIndex = int apiKeyIndex\<rparr>"

text \<open>
  The loop \<^verbatim>\<open>for apiKeyIndex, client := range goveeClients\<close>: \<open>apiKeyIndex\<close> is the index
  of the first client of the list that is left, \<open>allDevices\<close> the slice built so far.
\<close>

fun fetch_all ::
  "govee_library \<Rightarrow> upstream \<Rightarrow> nat \<Rightarrow> govee_Client list \<Rightarrow> DeviceResponse list \<Rightarrow> trace
     \<Rightarrow> DeviceResponse list \<times> trace" where
  "fetch_all lib up apiKeyIndex [] allDevices tr = (allDevices, tr)"
| "fetch_all lib up apiKeyIndex (client # rest) allDevices tr =
     (case govee_GetDevices lib up client tr of
        (Inl err, tr') \<Rightarrow> fetch_all lib up (Suc apiKeyIndex) rest allDevices tr'
      | (Inr devices, tr') \<Rightarrow>
          fetch_all lib up (Suc apiKeyIndex) rest
            (allDevices @ map (tag_device apiKeyIndex) devices) tr')"

definition HandleGetDevices ::
  "govee_library \<Rightarrow> upstream \<Rightarrow> govee_Client list \<Rightarrow> string \<Rightarrow> trace \<Rightarrow> response \<times> trace" where
  "HandleGetDevices lib up goveeClients method tr =
     (if method \<noteq> ''GET'' then (http_Error ''Method not allowed'' 405, tr)
      else (let (allDevices, tr') = fetch_all lib up 0 goveeClients [] tr
            in (write_json 200 (encode_DeviceResponses allDevices), tr')))"

subsection \<open>HandleControlDevice\<close>

definition sendErrorResponse :: "string \<Rightarrow> string \<Rightarrow> string \<Rightarrow> response" where
  "sendErrorResponse now deviceID message =
     write_json 400 (encode_ControlResponse
       \<lparr>cr_Success = False, cr_Message = message, cr_DeviceID = deviceID, cr_Timestamp = now\<rparr>)"

text \<open>The end of the handler, after the \<^verbatim>\<open>switch\<close>: \<open>err\<close> is what the client operation returned.\<close>

definition control_reply :: "string \<Rightarrow> string \<Rightarrow> error option \<times> trace \<Rightarrow> response \<times> trace" where
  "control_reply now deviceID r =
     (case r of
        (Some err, tr') \<Rightarrow> (sendErrorResponse now deviceID (Error err), tr')
      | (None, tr') \<Rightarrow>
          (write_json 200 (encode_ControlResponse
             \<lparr>cr_Success = True, cr_Message = ''Device controlled successfully'',
              cr_DeviceID = deviceID, cr_Timestamp = now\<rparr>), tr'))"

text \<open>
  The type assertion \<^verbatim>\<open>colorMap[k].(float64)\<close>: it holds when the key is present and its
  value is a number.
\<close>

definition as_float64 :: "json option \<Rightarrow> rat option" where
  "as_float64 v = (case v of Some (JNum x) \<Rightarrow> Some x | _ \<Rightarrow> None)"

definition HandleControlDevice ::
  "govee_library \<Rightarrow> (rat \<Rightarrow> int) \<Rightarrow> upstream \<Rightarrow> string \<Rightarrow> govee_Client list \<Rightarrow> string
     \<Rightarrow> ControlRequest option \<Rightarrow> trace \<Rightarrow> response \<times> trace" where
  "HandleControlDevice lib impl up now goveeClients method decoded tr =
     (if method \<noteq> ''POST'' then (http_Error ''Method not allowed'' 405, tr)
      else case decoded of
        None \<Rightarrow> (http_Error ''Invalid request body'' 400, tr)
      | Some req \<Rightarrow>
          if ctl_APIKeyIndex req < 0 \<or> ctl_APIKeyIndex req \<ge> int (length goveeClients)
          then (sendErrorResponse now (ctl_DeviceID req) ''Invalid API key index'', tr)
          else
            (let goveeClient = goveeClients ! nat (ctl_APIKeyIndex req)
             in if ctl_Command req = ''turn'' then
                  (case ctl_Value req of
                     JBool isOn \<Rightarrow>
                       control_reply now (ctl_DeviceID req)
                         (if isOn
                          then TurnOn lib up goveeClient (ctl_DeviceID req) (ctl_Model req) tr
                          else TurnOff lib up goveeClient (ctl_DeviceID req) (ctl_Model req) tr)
                   | _ \<Rightarrow>
                       (sendErrorResponse now (ctl_DeviceID req)
                          (''Invalid value for '' @ [CHR 0x27] @ ''turn'' @ [CHR 0x27]
                             @ '' command - expected boolean''), tr))
                else if ctl_Command req = ''brightness'' then
                  (case ctl_Value req of
                     JNum brightness \<Rightarrow>
                       control_reply now (ctl_DeviceID req)
                         (SetBrightness lib up goveeClient (ctl_DeviceID req) (ctl_Model req)
                            (float64_to_int impl brightness) tr)
                   | _ \<Rightarrow>
                       (sendErrorResponse now (ctl_DeviceID req)
                          (''Invalid value for '' @ [CHR 0x27] @ ''brightness'' @ [CHR 0x27]
                             @ '' command - expected number''), tr))
                else if ctl_Command req = ''color'' then
                  (case ctl_Value req of
                     JObj colorMap \<Rightarrow>
                       (case (as_float64 (colorMap ''r''), as_float64 (colorMap ''g''),
                              as_float64 (colorMap ''b'')) of
                          (Some r, Some g, Some b) \<Rightarrow>
                            control_reply now (ctl_DeviceID req)
                              (SetColor lib up goveeClient (ctl_DeviceID req) (ctl_Model req)
                                 (float64_to_int impl r) (float64_to_int impl g)
                                 (float64_to_int impl b) tr)
                        | _ \<Rightarrow>
                            (sendErrorResponse now (ctl_DeviceID req)
                               ''Color object must have r, g, b numeric fields'', tr))
                   | _ \<Rightarrow>
                       (sendErrorResponse now (ctl_DeviceID req)
                          (''Invalid value for '' @ [CHR 0x27] @ ''color'' @ [CHR 0x27]
                             @ '' command - expected object with r, g, b''), tr))
                else
                  (sendErrorResponse now (ctl_DeviceID req)
                     (''Unknown command: '' @ ctl_Command req), tr)))"

subsection \<open>HandleGetDeviceState\<close>

text \<open>
  The loop over \<^verbatim>\<open>stateResp.Data.Properties\<close>. \<^verbatim>\<open>isOn\<close> is the variable the loop assigns;
  a \<^verbatim>\<open>break\<close> returns at once. \<open>prop k = None\<close> says that the key is absent from the map.
\<close>

fun scan_properties :: "(string \<Rightarrow> json option) list \<Rightarrow> bool \<Rightarrow> bool" where
  "scan_properties [] isOn = isOn"
| "scan_properties (prop # rest) isOn =
     (case prop ''online'' of
        Some (JBool boolVal) \<Rightarrow> boolVal
      | _ \<Rightarrow>
          (case prop ''powerState'' of
             Some (JStr strVal) \<Rightarrow> (strVal = ''on'')
           | _ \<Rightarrow> scan_properties rest isOn))"

text \<open>
  \<open>query k\<close> is \<^verbatim>\<open>r.URL.Query().Get(k)\<close>, the empty string for a parameter that is not
  given.
\<close>

definition HandleGetDeviceState ::
  "govee_library \<Rightarrow> upstream \<Rightarrow> govee_Client list \<Rightarrow> string \<Rightarrow> (string \<Rightarrow> string) \<Rightarrow> trace
     \<Rightarrow> response \<times> trace" where
  "HandleGetDeviceState lib up goveeClients method query tr =
     (if method \<noteq> ''GET'' then (http_Error ''Method not allowed'' 405, tr)
      else
        (let deviceID = query ''deviceId'';
             model = query ''model'';
             parsed = (if query ''apiKeyIndex'' \<noteq> [] then Sscanf_d lib (query ''apiKeyIndex'')
                       else Some 0)
         in case parsed of
              None \<Rightarrow> (http_Error ''Invalid apiKeyIndex'' 400, tr)
            | Some apiKeyIndex \<Rightarrow>
                if deviceID = [] \<or> model = []
                then (http_Error ''Missing deviceId or model parameter'' 400, tr)
                else if apiKeyIndex < 0 \<or> apiKeyIndex \<ge> int (length goveeClients)
                then (http_Error ''Invalid API key index'' 400, tr)
                else
                  (case govee_GetDeviceState lib up (goveeClients ! nat apiKeyIndex)
                          deviceID model tr of
                     (Inl err, tr') \<Rightarrow> (http_Error ''Failed to query device state'' 500, tr')
                   | (Inr stateResp, tr') \<Rightarrow>
                       (write_json 200 (encode_StateResponse
                          \<lparr>sr_DeviceID = deviceID,
                           sr_IsOn = scan_properties (dsr_Data_Properties stateResp) False\<rparr>),
                        tr'))))"

section \<open>Package firetv: the remote-control microservice\<close>

subsection \<open>Models\<close>

text \<open>
  \<open>dd_\<close> prefixes the fields of \<^verbatim>\<open>DiscoveredDevice\<close>, \<open>disc_\<close> those of
  \<^verbatim>\<open>DiscoverResponse\<close>, \<open>pq_\<close> those of \<^verbatim>\<open>PairRequest\<close>, \<open>pr_\<close> those of \<^verbatim>\<open>PairResponse\<close>,
  \<open>cq_\<close> those of \<^verbatim>\<open>CommandRequest\<close>, \<open>cp_\<close> those of \<^verbatim>\<open>CommandResponse\<close>; \<^verbatim>\<open>ErrorDetail\<close>
  has one field, a string, and is that string.
\<close>

record DiscoveredDevice =
  dd_Name :: string
  dd_Host :: string
  dd_Port :: int
  dd_Model :: string

record DiscoverResponse =
  disc_Success :: bool
  disc_Devices :: "DiscoveredDevice list option"
  disc_Message :: string

record PairRequest =
  pq_Host :: string
  pq_PIN :: string

record PairResponse =
  pr_Success :: bool
  pr_Message :: string
  pr_DeviceName :: string
  pr_AwaitingPIN :: bool

record CommandRequest =
  cq_Host :: string
  cq_Command :: string
  cq_Text :: string
  cq_AppPackage :: string

record CommandResponse =
  cp_Success :: bool
  cp_Message :: string
  cp_Command :: string

text \<open>
  \<^verbatim>\<open>json.Marshal\<close> of the two request structs. A field tagged \<^verbatim>\<open>omitempty\<close> is left out of
  the object when it is the empty string.
\<close>

definition omitempty :: "string \<Rightarrow> string \<Rightarrow> (string \<Rightarrow> json option) \<Rightarrow> (string \<Rightarrow> json option)" where
  "omitempty key v m = (if v = [] then m else m(key \<mapsto> JStr v))"

definition marshal_PairRequest :: "PairRequest \<Rightarrow> json" where
  "marshal_PairRequest r = JObj (omitempty ''pin'' (pq_PIN r) [''host'' \<mapsto> JStr (pq_Host r)])"

definition marshal_CommandRequest :: "CommandRequest \<Rightarrow> json" where
  "marshal_CommandRequest r =
     JObj (omitempty ''app_package'' (cq_AppPackage r)
            (omitempty ''text'' (cq_Text r)
               [''host'' \<mapsto> JStr (cq_Host r), ''command'' \<mapsto> JStr (cq_Command r)]))"

text \<open>
  The results of \<^verbatim>\<open>json.Unmarshal\<close> on a body of the microservice, as parameters.
  \<open>unmarshal_ErrorDetail\<close> is \<open>Some detail\<close> when decoding into \<^verbatim>\<open>ErrorDetail\<close> succeeds.
\<close>

record firetv_library =
  unmarshal_ErrorDetail :: "string \<Rightarrow> string option"
  unmarshal_DiscoverResponse :: "string \<Rightarrow> string + DiscoverResponse"
  unmarshal_PairResponse :: "string \<Rightarrow> string + PairResponse"
  unmarshal_CommandResponse :: "string \<Rightarrow> string + CommandResponse"

subsection \<open>Client\<close>

definition defaultBaseURL :: string where
  "defaultBaseURL = ''http://localhost:9090''"

definition discoverEndpoint :: string where
  "discoverEndpoint = ''/discover''"

definition pairEndpoint :: string where
  "pairEndpoint = ''/pair''"

definition commandEndpoint :: string where
  "commandEndpoint = ''/command''"

text \<open>
  The client holds the base URL of the microservice and an HTTP client with a timeout.
  It has no other field: nothing is kept between two calls.
\<close>

record firetv_Client =
  ftv_baseURL :: string

definition firetv_NewClient :: "string \<Rightarrow> firetv_Client" where
  "firetv_NewClient serviceURL =
     \<lparr>ftv_baseURL = (if serviceURL = [] then defaultBaseURL else serviceURL)\<rparr>"

text \<open>\<^verbatim>\<open>httpClient.Get(url)\<close> and \<^verbatim>\<open>httpClient.Post(url, "application/json", body)\<close>.\<close>

definition Get_call :: "string \<Rightarrow> http_request" where
  "Get_call url = \<lparr>req_method = ''GET'', req_url = url, req_headers = [], req_body = None\<rparr>"

definition Post_call :: "string \<Rightarrow> json \<Rightarrow> http_request" where
  "Post_call url doc =
     \<lparr>req_method = ''POST'', req_url = url,
      req_headers = [(''Content-Type'', ''application/json'')], req_body = Some doc\<rparr>"

text \<open>
  The test \<^verbatim>\<open>json.Unmarshal(body, &errDetail) == nil && errDetail.Detail != ""\<close> that the
  three operations make on a reply whose status is not 200.
\<close>

definition has_detail :: "firetv_library \<Rightarrow> string \<Rightarrow> string option" where
  "has_detail lib body =
     (case unmarshal_ErrorDetail lib body of
        Some detail \<Rightarrow> (if detail \<noteq> [] then Some detail else None)
      | None \<Rightarrow> None)"

definition Discover ::
  "firetv_library \<Rightarrow> upstream \<Rightarrow> firetv_Client \<Rightarrow> trace \<Rightarrow> (error + DiscoverResponse) \<times> trace" where
  "Discover lib up c tr =
     (let (res, tr') = Do up (Get_call (ftv_baseURL c @ discoverEndpoint)) tr
      in case res of
           Unreachable cause \<Rightarrow> (Inl (FireTVUnreachable cause), tr')
         | Truncated st cause \<Rightarrow> (Inl (ReadDiscoveryFailed cause), tr')
         | Replied st body \<Rightarrow>
             if st \<noteq> 200 then
               (case has_detail lib body of
                  Some detail \<Rightarrow> (Inl (DiscoveryFailedDetail detail), tr')
                | None \<Rightarrow> (Inl (DiscoveryFailedStatus st), tr'))
             else (case unmarshal_DiscoverResponse lib body of
                     Inl cause \<Rightarrow> (Inl (ParseDiscoveryFailed cause), tr')
                   | Inr result \<Rightarrow> (Inr result, tr')))"

definition sendPairRequest ::
  "firetv_library \<Rightarrow> upstream \<Rightarrow> firetv_Client \<Rightarrow> PairRequest \<Rightarrow> trace
     \<Rightarrow> (error + PairResponse) \<times> trace" where
  "sendPairRequest lib up c reqBody tr =
     (let (res, tr') =
            Do up (Post_call (ftv_baseURL c @ pairEndpoint) (marshal_PairRequest reqBody)) tr
      in case res of
           Unreachable cause \<Rightarrow> (Inl (FireTVUnreachable cause), tr')
         | Truncated st cause \<Rightarrow> (Inl (ReadPairFailed cause), tr')
         | Replied st body \<Rightarrow>
             if st \<noteq> 200 then
               (case has_detail lib body of
                  Some detail \<Rightarrow> (Inl (PairingFailedDetail detail), tr')
                | None \<Rightarrow> (Inl (PairingFailedStatus st), tr'))
             else (case unmarshal_PairResponse lib body of
                     Inl cause \<Rightarrow> (Inl (ParsePairFailed cause), tr')
                   | Inr result \<Rightarrow> (Inr result, tr')))"

text \<open>
  \<^verbatim>\<open>PairRequest{Host: host}\<close> leaves \<^verbatim>\<open>PIN\<close> at its zero value, the empty string.
\<close>

definition StartPairing ::
  "firetv_library \<Rightarrow> upstream \<Rightarrow> firetv_Client \<Rightarrow> string \<Rightarrow> trace
     \<Rightarrow> (error + PairResponse) \<times> trace" where
  "StartPairing lib up c host tr =
     sendPairRequest lib up c \<lparr>pq_Host = host, pq_PIN = []\<rparr> tr"

definition FinishPairing ::
  "firetv_library \<Rightarrow> upstream \<Rightarrow> firetv_Client \<Rightarrow> string \<Rightarrow> string \<Rightarrow> trace
     \<Rightarrow> (error + PairResponse) \<times> trace" where
  "FinishPairing lib up c host pin tr =
     sendPairRequest lib up c \<lparr>pq_Host = host, pq_PIN = pin\<rparr> tr"

definition SendCommand ::
  "firetv_library \<Rightarrow> upstream \<Rightarrow> firetv_Client \<Rightarrow> string \<Rightarrow> string \<Rightarrow> string \<Rightarrow> string \<Rightarrow> trace
     \<Rightarrow> (error + CommandResponse) \<times> trace" where
  "SendCommand lib up c host command text appPackage tr =
     (let reqBody = \<lparr>cq_Host = host, cq_Command = command, cq_Text = text,
                     cq_AppPackage = appPackage\<rparr>;
          (res, tr') =
            Do up (Post_call (ftv_baseURL c @ commandEndpoint) (marshal_CommandRequest reqBody)) tr
      in case res of
           Unreachable cause \<Rightarrow> (Inl (FireTVUnreachable cause), tr')
         | Truncated st cause \<Rightarrow> (Inl (ReadCommandFailed cause), tr')
         | Replied st body \<Rightarrow>
             if st \<noteq> 200 then
               (case has_detail lib body of
                  Some detail \<Rightarrow> (Inl (CommandFailedDetail detail), tr')
                | None \<Rightarrow> (Inl (CommandFailedStatus st), tr'))
             else (case unmarshal_CommandResponse lib body of
                     Inl cause \<Rightarrow> (Inl (ParseCommandFailed cause), tr')
                   | Inr result \<Rightarrow> (Inr result, tr')))"

section \<open>Package handlers: the remote-control endpoints\<close>

subsection \<open>Structs\<close>

text \<open>
  \<open>fpq_\<close> prefixes the fields of \<^verbatim>\<open>FireTVPairRequest\<close>, \<open>fpr_\<close> those of
  \<^verbatim>\<open>FireTVPairResponse\<close>, \<open>fcq_\<close> those of \<^verbatim>\<open>FireTVCommandRequest\<close>, \<open>fcr_\<close> those of
  \<^verbatim>\<open>FireTVCommandResponse\<close>.
\<close>

record FireTVPairRequest =
  fpq_Host :: string
  fpq_PIN :: string

record FireTVPairResponse =
  fpr_Success :: bool
  fpr_Message :: string
  fpr_DeviceName :: string
  fpr_AwaitingPIN :: bool
  fpr_Timestamp :: string

record FireTVCommandRequest =
  fcq_Host :: string
  fcq_Command :: string
  fcq_Text :: string
  fcq_AppPackage :: string

record FireTVCommandResponse =
  fcr_Success :: bool
  fcr_Message :: string
  fcr_Command :: string
  fcr_Timestamp :: string

text \<open>
  What \<^verbatim>\<open>Decode(&req)\<close> makes of a pair request body that is a JSON document, for the
  two string fields of \<^verbatim>\<open>FireTVPairRequest\<close>. A key that is absent, or whose value is
  \<^verbatim>\<open>null\<close>, leaves the field at its zero value, the empty string; a string is stored; any
  other value makes \<^verbatim>\<open>Decode\<close> return an error. \<^verbatim>\<open>null\<close> for the whole document leaves
  the struct untouched, and a document that is not an object is an error. The object is
  indexed by the keys as the decoder matches them to the field tags \<^verbatim>\<open>host\<close> and \<^verbatim>\<open>pin\<close>.
\<close>

definition decode_string_field :: "json option \<Rightarrow> string option" where
  "decode_string_field f =
     (case f of
        None \<Rightarrow> Some []
      | Some JNull \<Rightarrow> Some []
      | Some (JStr s) \<Rightarrow> Some s
      | Some _ \<Rightarrow> None)"

definition decode_FireTVPairRequest :: "json \<Rightarrow> FireTVPairRequest option" where
  "decode_FireTVPairRequest doc =
     (case doc of
        JNull \<Rightarrow> Some \<lparr>fpq_Host = [], fpq_PIN = []\<rparr>
      | JObj m \<Rightarrow>
          (case (decode_string_field (m ''host''), decode_string_field (m ''pin'')) of
             (Some host, Some pin) \<Rightarrow> Some \<lparr>fpq_Host = host, fpq_PIN = pin\<rparr>
           | _ \<Rightarrow> None)
      | _ \<Rightarrow> None)"

text \<open>A request body: \<open>None\<close> when it is not a JSON document at all.\<close>

definition decode_pair_body :: "json option \<Rightarrow> FireTVPairRequest option" where
  "decode_pair_body b = (case b of None \<Rightarrow> None | Some doc \<Rightarrow> decode_FireTVPairRequest doc)"

definition encode_DiscoveredDevice :: "DiscoveredDevice \<Rightarrow> json" where
  "encode_DiscoveredDevice d =
     JObj (omitempty ''model'' (dd_Model d)
            [''name'' \<mapsto> JStr (dd_Name d), ''host'' \<mapsto> JStr (dd_Host d),
             ''port'' \<mapsto> JNum (of_int (dd_Port d))])"

definition encode_DiscoverResponse :: "DiscoverResponse \<Rightarrow> json" where
  "encode_DiscoverResponse r =
     JObj [''success'' \<mapsto> JBool (disc_Success r),
           ''devices'' \<mapsto>
              (case disc_Devices r of
                 None \<Rightarrow> JNull
               | Some ds \<Rightarrow> JArr (map encode_DiscoveredDevice ds)),
           ''message'' \<mapsto> JStr (disc_Message r)]"

definition encode_FireTVPairResponse :: "FireTVPairResponse \<Rightarrow> json" where
  "encode_FireTVPairResponse r =
     JObj (omitempty ''deviceName'' (fpr_DeviceName r)
            [''success'' \<mapsto> JBool (fpr_Success r), ''message'' \<mapsto> JStr (fpr_Message r),
             ''awaitingPin'' \<mapsto> JBool (fpr_AwaitingPIN r),
             ''timestamp'' \<mapsto> JStr (fpr_Timestamp r)])"

definition encode_FireTVCommandResponse :: "FireTVCommandResponse \<Rightarrow> json" where
  "encode_FireTVCommandResponse r =
     JObj [''success'' \<mapsto> JBool (fcr_Success r), ''message'' \<mapsto> JStr (fcr_Message r),
           ''command'' \<mapsto> JStr (fcr_Command r), ''timestamp'' \<mapsto> JStr (fcr_Timestamp r)]"

subsection \<open>Handlers\<close>

definition sendFireTVError :: "string \<Rightarrow> int \<Rightarrow> string \<Rightarrow> response" where
  "sendFireTVError now statusCode message =
     write_json statusCode (encode_FireTVCommandResponse
       \<lparr>fcr_Success = False, fcr_Message = message, fcr_Command = [], fcr_Timestamp = now\<rparr>)"

definition HandleFireTVDiscover ::
  "firetv_library \<Rightarrow> upstream \<Rightarrow> string \<Rightarrow> firetv_Client \<Rightarrow> string \<Rightarrow> trace
     \<Rightarrow> response \<times> trace" where
  "HandleFireTVDiscover lib up now firetvClient method tr =
     (if method \<noteq> ''GET'' then (http_Error ''Method not allowed'' 405, tr)
      else case Discover lib up firetvClient tr of
             (Inl err, tr') \<Rightarrow> (sendFireTVError now 500 (Error err), tr')
           | (Inr result, tr') \<Rightarrow> (write_json 200 (encode_DiscoverResponse result), tr'))"

text \<open>The end of \<^verbatim>\<open>HandleFireTVPair\<close>: \<open>r\<close> is what the pairing operation returned.\<close>

definition pair_reply :: "string \<Rightarrow> (error + PairResponse) \<times> trace \<Rightarrow> response \<times> trace" where
  "pair_reply now r =
     (case r of
        (Inl err, tr') \<Rightarrow> (sendFireTVError now 400 (Error err), tr')
      | (Inr result, tr') \<Rightarrow>
          (write_json 200 (encode_FireTVPairResponse
             \<lparr>fpr_Success = pr_Success result, fpr_Message = pr_Message result,
              fpr_DeviceName = pr_DeviceName result,
              fpr_AwaitingPIN = pr_AwaitingPIN result, fpr_Timestamp = now\<rparr>), tr'))"

definition HandleFireTVPair ::
  "firetv_library \<Rightarrow> upstream \<Rightarrow> string \<Rightarrow> firetv_Client \<Rightarrow> string
     \<Rightarrow> FireTVPairRequest option \<Rightarrow> trace \<Rightarrow> response \<times> trace" where
  "HandleFireTVPair lib up now firetvClient method decoded tr =
     (if method \<noteq> ''POST'' then (http_Error ''Method not allowed'' 405, tr)
      else case decoded of
        None \<Rightarrow> (http_Error ''Invalid request body'' 400, tr)
      | Some req \<Rightarrow>
          if fpq_Host req = [] then (sendFireTVError now 400 ''host is required'', tr)
          else
            pair_reply now
              (if fpq_PIN req = []
               then StartPairing lib up firetvClient (fpq_Host req) tr
               else FinishPairing lib up firetvClient (fpq_Host req) (fpq_PIN req) tr))"

definition HandleFireTVCommand ::
  "firetv_library \<Rightarrow> upstream \<Rightarrow> string \<Rightarrow> firetv_Client \<Rightarrow> string
     \<Rightarrow> FireTVCommandRequest option \<Rightarrow> trace \<Rightarrow> response \<times> trace" where
  "HandleFireTVCommand lib up now firetvClient method decoded tr =
     (if method \<noteq> ''POST'' then (http_Error ''Method not allowed'' 405, tr)
      else case decoded of
        None \<Rightarrow> (http_Error ''Invalid request body'' 400, tr)
      | Some req \<Rightarrow>
          if fcq_Host req = [] then (sendFireTVError now 400 ''host is required'', tr)
          else if fcq_Command req = [] then (sendFireTVError now 400 ''command is required'', tr)
          else
            (case SendCommand lib up firetvClient (fcq_Host req) (fcq_Command req)
                    (fcq_Text req) (fcq_AppPackage req) tr of
               (Inl err, tr') \<Rightarrow> (sendFireTVError now 400 (Error err), tr')
             | (Inr result, tr') \<Rightarrow>
                 (write_json 200 (encode_FireTVCommandResponse
                    \<lparr>fcr_Success = cp_Success result, fcr_Message = cp_Message result,
                     fcr_Command = cp_Command result, fcr_Timestamp = now\<rparr>), tr')))"

section \<open>Package camera: the streaming bridge\<close>

subsection \<open>Models\<close>

text \<open>
  \<open>su_\<close> prefixes the fields of \<^verbatim>\<open>StreamURLs\<close>, \<open>cam_\<close> those of \<^verbatim>\<open>Camera\<close>, \<open>bci_\<close> those of
  \<^verbatim>\<open>BridgeCameraInfo\<close>, \<open>cams_\<close> those of \<^verbatim>\<open>CamerasResponse\<close>, \<open>str_\<close> those of
  \<^verbatim>\<open>StreamResponse\<close>.
\<close>

record StreamURLs =
  su_HLS :: string
  su_RTSP :: string
  su_WebRTC :: string

record Camera =
  cam_Name :: string
  cam_NameURI :: string
  cam_Model :: string
  cam_Status :: string
  cam_Enabled :: bool
  cam_StreamURL :: string
  cam_Streams :: StreamURLs

record BridgeCameraInfo =
  bci_NameURI :: string
  bci_Nickname :: string
  bci_ModelName :: string
  bci_ProductModel :: string
  bci_Connected :: bool
  bci_Enabled :: bool

record CamerasResponse =
  cams_Success :: bool
  cams_Cameras :: "Camera list"
  cams_Message :: string

record StreamResponse =
  str_Success :: bool
  str_Name :: string
  str_NameURI :: string
  str_Status :: string
  str_StreamURL :: string
  str_Streams :: StreamURLs
  str_Message :: string

text \<open>
  The results of \<^verbatim>\<open>json.Unmarshal\<close> on a body of the bridge, as parameters.
  \<open>unmarshal_bridgeResponse\<close> decodes into \<^verbatim>\<open>map[string]json.RawMessage\<close> and lists the
  entries in the order in which the \<^verbatim>\<open>range\<close> loop of \<^verbatim>\<open>GetCameras\<close> visits them.
  \<^verbatim>\<open>parseCameraEntry\<close> ignores the errors of its two calls: \<open>unmarshal_BridgeCameraInfo\<close> is
  the struct as the call leaves it, \<open>unmarshal_generic\<close> the map as the call leaves it (a
  \<^verbatim>\<open>nil\<close> map has no key).
\<close>

record camera_library =
  unmarshal_bridgeResponse :: "string \<Rightarrow> string + (string \<times> string) list"
  unmarshal_BridgeCameraInfo :: "string \<Rightarrow> BridgeCameraInfo"
  unmarshal_generic :: "string \<Rightarrow> (string \<Rightarrow> json option)"

subsection \<open>Client\<close>

definition defaultBridgeURL :: string where
  "defaultBridgeURL = ''http://localhost:5050''"

definition bridgeAPIEndpoint :: string where
  "bridgeAPIEndpoint = ''/api/''"

definition hlsPort :: string where
  "hlsPort = ''8888''"

definition rtspPort :: string where
  "rtspPort = ''8554''"

definition webrtcPort :: string where
  "webrtcPort = ''8889''"

record camera_Client =
  cl_bridgeURL :: string
  cl_apiKey :: string

text \<open>\<^verbatim>\<open>strings.TrimRight(s, "/")\<close> removes every trailing slash.\<close>

definition TrimRight_slash :: "string \<Rightarrow> string" where
  "TrimRight_slash s = rev (dropWhile (\<lambda>c. c = CHR ''/'') (rev s))"

definition camera_NewClient :: "string \<Rightarrow> string \<Rightarrow> camera_Client" where
  "camera_NewClient bridgeURL key =
     \<lparr>cl_bridgeURL = TrimRight_slash (if bridgeURL = [] then defaultBridgeURL else bridgeURL),
      cl_apiKey = key\<rparr>"

text \<open>
  \<^verbatim>\<open>strings.Index(s, substr)\<close>: the index of the first occurrence of \<open>substr\<close> in \<open>s\<close>;
  \<open>None\<close> stands for the result \<^verbatim>\<open>-1\<close>.
\<close>

fun Index :: "string \<Rightarrow> string \<Rightarrow> nat option" where
  "Index [] substr = (if substr = [] then Some 0 else None)"
| "Index (c # s) substr =
     (if take (length substr) (c # s) = substr then Some 0
      else map_option Suc (Index s substr))"

definition extractHost :: "string \<Rightarrow> string" where
  "extractHost rawURL =
     (let host1 = (case Index rawURL ''://'' of
                     Some idx \<Rightarrow> drop (idx + 3) rawURL
                   | None \<Rightarrow> rawURL);
          host2 = (case Index host1 '':'' of Some idx \<Rightarrow> take idx host1 | None \<Rightarrow> host1);
          host3 = (case Index host2 ''/'' of Some idx \<Rightarrow> take idx host2 | None \<Rightarrow> host2)
      in host3)"

text \<open>A string field of the generic map that is present, a string and not empty.\<close>

definition nonempty_string :: "json option \<Rightarrow> string option" where
  "nonempty_string f =
     (case f of
        Some (JStr m) \<Rightarrow> (if m \<noteq> [] then Some m else None)
      | _ \<Rightarrow> None)"

definition generic_bool :: "json option \<Rightarrow> bool \<Rightarrow> bool" where
  "generic_bool f dflt = (case f of Some (JBool b) \<Rightarrow> b | _ \<Rightarrow> dflt)"

definition parseCameraEntry :: "camera_library \<Rightarrow> string \<Rightarrow> string \<Rightarrow> string \<Rightarrow> Camera" where
  "parseCameraEntry lib nameURI rawData bridgeHost =
     (let info = unmarshal_BridgeCameraInfo lib rawData;
          generic = unmarshal_generic lib rawData;
          displayName = (if bci_Nickname info = [] then nameURI else bci_Nickname info);
          model0 = (if bci_ModelName info = [] then bci_ProductModel info
                    else bci_ModelName info);
          model = (if model0 = [] then
                     (case nonempty_string (generic ''model_name'') of
                        Some m \<Rightarrow> m
                      | None \<Rightarrow>
                          (case nonempty_string (generic ''product_model'') of
                             Some m \<Rightarrow> m
                           | None \<Rightarrow> ''Wyze Camera''))
                   else model0);
          uri = (if bci_NameURI info = [] then nameURI else bci_NameURI info);
          connected = (if \<not> bci_Connected info
                       then generic_bool (generic ''connected'') (bci_Connected info)
                       else bci_Connected info);
          enabled = (if \<not> bci_Enabled info
                     then generic_bool (generic ''enabled'') (bci_Enabled info)
                     else bci_Enabled info);
          status = (if connected \<and> enabled then ''online'' else ''offline'');
          streams = \<lparr>su_HLS = ''http://'' @ bridgeHost @ '':'' @ hlsPort @ ''/'' @ uri
                                 @ ''/stream.m3u8'',
                     su_RTSP = ''rtsp://'' @ bridgeHost @ '':'' @ rtspPort @ ''/'' @ uri,
                     su_WebRTC = ''http://'' @ bridgeHost @ '':'' @ webrtcPort @ ''/'' @ uri
                                    @ ''/''\<rparr>
      in \<lparr>cam_Name = displayName, cam_NameURI = uri, cam_Model = model, cam_Status = status,
          cam_Enabled = enabled, cam_StreamURL = su_HLS streams, cam_Streams = streams\<rparr>)"

definition with_api_key :: "camera_Client \<Rightarrow> string \<Rightarrow> string" where
  "with_api_key c reqURL = (if cl_apiKey c \<noteq> [] then reqURL @ ''?api='' @ cl_apiKey c else reqURL)"

definition GetCameras ::
  "camera_library \<Rightarrow> upstream \<Rightarrow> camera_Client \<Rightarrow> trace \<Rightarrow> (error + Camera list) \<times> trace" where
  "GetCameras lib up c tr =
     (let (res, tr') = Do up (Get_call (with_api_key c (cl_bridgeURL c @ bridgeAPIEndpoint))) tr
      in case res of
           Unreachable cause \<Rightarrow> (Inl (BridgeUnreachableAt (cl_bridgeURL c) cause), tr')
         | Truncated st cause \<Rightarrow> (Inl (ReadBridgeFailed cause), tr')
         | Replied st body \<Rightarrow>
             if st \<noteq> 200 then (Inl (BridgeStatus st body), tr')
             else (case unmarshal_bridgeResponse lib body of
                     Inl cause \<Rightarrow> (Inl (ParseBridgeFailed cause), tr')
                   | Inr bridgeResponse \<Rightarrow>
                       (Inr (map (\<lambda>(nameURI, rawData).
                                    parseCameraEntry lib nameURI rawData
                                      (extractHost (cl_bridgeURL c)))
                               bridgeResponse), tr')))"

definition GetCamera ::
  "camera_library \<Rightarrow> upstream \<Rightarrow> camera_Client \<Rightarrow> string \<Rightarrow> trace \<Rightarrow> (error + Camera) \<times> trace" where
  "GetCamera lib up c nameURI tr =
     (let (res, tr') = Do up (Get_call (with_api_key c (cl_bridgeURL c @ ''/api/'' @ nameURI))) tr
      in case res of
           Unreachable cause \<Rightarrow> (Inl (BridgeUnreachable cause), tr')
         | Truncated st cause \<Rightarrow> (Inl (ReadBridgeFailed cause), tr')
         | Replied st body \<Rightarrow>
             if st = 404 then (Inl (CameraNotFound nameURI), tr')
             else if st \<noteq> 200 then (Inl (BridgeStatusForCamera st nameURI), tr')
             else (Inr (parseCameraEntry lib nameURI body (extractHost (cl_bridgeURL c))), tr'))"

section \<open>Package handlers: the camera endpoints\<close>

definition encode_StreamURLs :: "StreamURLs \<Rightarrow> json" where
  "encode_StreamURLs s =
     JObj [''hls'' \<mapsto> JStr (su_HLS s), ''rtsp'' \<mapsto> JStr (su_RTSP s),
           ''webrtc'' \<mapsto> JStr (su_WebRTC s)]"

definition encode_Camera :: "Camera \<Rightarrow> json" where
  "encode_Camera c =
     JObj [''name'' \<mapsto> JStr (cam_Name c), ''nameUri'' \<mapsto> JStr (cam_NameURI c),
           ''model'' \<mapsto> JStr (cam_Model c), ''status'' \<mapsto> JStr (cam_Status c),
           ''enabled'' \<mapsto> JBool (cam_Enabled c), ''streamUrl'' \<mapsto> JStr (cam_StreamURL c),
           ''streams'' \<mapsto> encode_StreamURLs (cam_Streams c)]"

text \<open>
  Both places that build a \<^verbatim>\<open>CamerasResponse\<close> make sure its slice is not \<^verbatim>\<open>nil\<close>, so the
  cameras are always written as an array.
\<close>

definition encode_CamerasResponse :: "CamerasResponse \<Rightarrow> json" where
  "encode_CamerasResponse r =
     JObj [''success'' \<mapsto> JBool (cams_Success r),
           ''cameras'' \<mapsto> JArr (map encode_Camera (cams_Cameras r)),
           ''message'' \<mapsto> JStr (cams_Message r)]"

definition encode_StreamResponse :: "StreamResponse \<Rightarrow> json" where
  "encode_StreamResponse r =
     JObj [''success'' \<mapsto> JBool (str_Success r), ''name'' \<mapsto> JStr (str_Name r),
           ''nameUri'' \<mapsto> JStr (str_NameURI r), ''status'' \<mapsto> JStr (str_Status r),
           ''streamUrl'' \<mapsto> JStr (str_StreamURL r),
           ''streams'' \<mapsto> encode_StreamURLs (str_Streams r),
           ''message'' \<mapsto> JStr (str_Message r)]"

definition sendCameraError :: "int \<Rightarrow> string \<Rightarrow> response" where
  "sendCameraError statusCode message =
     write_json statusCode (encode_CamerasResponse
       \<lparr>cams_Success = False, cams_Cameras = [], cams_Message = message\<rparr>)"

definition formatCameraCountMessage :: "nat \<Rightarrow> string" where
  "formatCameraCountMessage count =
     (if count = 0
      then ''No cameras found. Make sure Wyze Bridge is running and cameras are connected.''
      else if count = 1 then ''Found 1 camera''
      else ''Found '' @ itoa (int count) @ '' cameras'')"

definition HandleGetCameras ::
  "camera_library \<Rightarrow> upstream \<Rightarrow> camera_Client \<Rightarrow> string \<Rightarrow> trace \<Rightarrow> response \<times> trace" where
  "HandleGetCameras lib up cameraClient method tr =
     (if method \<noteq> ''GET'' then (http_Error ''Method not allowed'' 405, tr)
      else case GetCameras lib up cameraClient tr of
             (Inl err, tr') \<Rightarrow>
               (sendCameraError 500 (''Failed to fetch cameras: '' @ Error err), tr')
           | (Inr cameras, tr') \<Rightarrow>
               (write_json 200 (encode_CamerasResponse
                  \<lparr>cams_Success = True, cams_Cameras = cameras,
                   cams_Message = formatCameraCountMessage (length cameras)\<rparr>), tr'))"

text \<open>The message for an offline camera holds a dash outside ASCII: three bytes of UTF-8.\<close>

definition offline_message :: string where
  "offline_message =
     ''Camera is offline '' @ [CHR 0xE2, CHR 0x80, CHR 0x94] @ '' stream may not be available''"

definition HandleGetCameraStream ::
  "camera_library \<Rightarrow> upstream \<Rightarrow> camera_Client \<Rightarrow> string \<Rightarrow> (string \<Rightarrow> string) \<Rightarrow> trace
     \<Rightarrow> response \<times> trace" where
  "HandleGetCameraStream lib up cameraClient method query tr =
     (if method \<noteq> ''GET'' then (http_Error ''Method not allowed'' 405, tr)
      else
        (let nameURI = query ''name''
         in if nameURI = []
            then (sendCameraError 400
                    (''Missing required '' @ [CHR 0x27] @ ''name'' @ [CHR 0x27]
                       @ '' query parameter''), tr)
            else
              (case GetCamera lib up cameraClient nameURI tr of
                 (Inl err, tr') \<Rightarrow> (sendCameraError 404 (''Camera not found: '' @ Error err), tr')
               | (Inr cam, tr') \<Rightarrow>
                   (let statusMsg = (if cam_Status cam = ''offline'' then offline_message
                                     else ''Camera is online and streaming'')
                    in (write_json 200 (encode_StreamResponse
                          \<lparr>str_Success = True, str_Name = cam_Name cam,
                           str_NameURI = cam_NameURI cam, str_Status = cam_Status cam,
                           str_StreamURL = cam_StreamURL cam, str_Streams = cam_Streams cam,
                           str_Message = statusMsg\<rparr>), tr')))))"

section \<open>The lightbulb and health endpoints\<close>

text \<open>
  \<^verbatim>\<open>HandleLightbulbToggle\<close> decodes \<^verbatim>\<open>{"isOn": bool}\<close>; \<open>decoded\<close> is the field \<^verbatim>\<open>IsOn\<close> of
  the decoded request. \<open>now\<close> is \<^verbatim>\<open>time.Now()\<close> as \<^verbatim>\<open>encoding/json\<close> writes a
  \<^verbatim>\<open>time.Time\<close>. The health endpoint of \<^verbatim>\<open>main.go\<close> answers every request with a fixed
  document.
\<close>

definition HandleLightbulbToggle :: "string \<Rightarrow> string \<Rightarrow> bool option \<Rightarrow> response" where
  "HandleLightbulbToggle now method decoded =
     (if method \<noteq> ''POST'' then http_Error ''Method not allowed'' 405
      else case decoded of
        None \<Rightarrow> http_Error ''Invalid request body'' 400
      | Some isOn \<Rightarrow>
          write_json 200
            (JObj [''success'' \<mapsto> JBool True,
                   ''message'' \<mapsto> JStr ''Lightbulb state updated successfully'',
                   ''isOn'' \<mapsto> JBool isOn, ''timestamp'' \<mapsto> JStr now]))"

definition HandleHealth :: response where
  "HandleHealth =
     write_json 200 (JObj [''status'' \<mapsto> JStr ''healthy'', ''service'' \<mapsto> JStr ''artemis''])"

section \<open>Properties of a response\<close>

text \<open>
  The envelope: the body is a JSON object with a boolean under \<^verbatim>\<open>success\<close> and a string
  under \<^verbatim>\<open>message\<close>. A body written as plain text is not a JSON document.
\<close>

fun has_envelope :: "body \<Rightarrow> bool" where
  "has_envelope (Json (JObj m)) =
     (case (m ''success'', m ''message'') of
        (Some (JBool b), Some (JStr s)) \<Rightarrow> True
      | _ \<Rightarrow> False)"
| "has_envelope _ = False"

text \<open>The success flag of a body with an envelope.\<close>

fun success_flag :: "body \<Rightarrow> bool option" where
  "success_flag (Json (JObj m)) = (case m ''success'' of Some (JBool b) \<Rightarrow> Some b | _ \<Rightarrow> None)"
| "success_flag _ = None"

fun message_of :: "body \<Rightarrow> string option" where
  "message_of (Json (JObj m)) = (case m ''message'' of Some (JStr s) \<Rightarrow> Some s | _ \<Rightarrow> None)"
| "message_of _ = None"

section \<open>The aggregation of the specification\<close>


section \<open>Concrete inputs\<close>

text \<open>
  Inputs at which the theorems below are evaluated. Two accounts; an upstream that
  accepts every call; an upstream that is down; a decoder that reads the bodies these
  upstreams send.
\<close>

definition account0 :: govee_Client where
  "account0 = \<lparr>apiKey = ''key-0''\<rparr>"

definition account1 :: govee_Client where
  "account1 = \<lparr>apiKey = ''key-1''\<rparr>"

definition lamp :: govee_Device where
  "lamp = \<lparr>dev_Device = ''AA:BB:CC:DD:EE:FF:00:01'', dev_Model = ''H6159'',
           dev_DeviceName = ''Living Room Light'', dev_Controllable = True,
           dev_Retrievable = True, dev_SupportCmds = Some [''turn'', ''brightness'']\<rparr>"

definition strip :: govee_Device where
  "strip = \<lparr>dev_Device = ''AA:BB:CC:DD:EE:FF:00:02'', dev_Model = ''H6046'',
            dev_DeviceName = ''Desk Strip'', dev_Controllable = True,
            dev_Retrievable = False, dev_SupportCmds = Some [''turn'', ''color'']\<rparr>"

definition demo_govee_library :: govee_library where
  "demo_govee_library =
     \<lparr>unmarshal_ErrorResponse = (\<lambda>body. None),
      unmarshal_DevicesResponse =
        (\<lambda>body. if body = ''two devices''
                then Inr \<lparr>dres_Data_Devices = [lamp, strip], dres_Message = ''Success'',
                          dres_Code = 200\<rparr>
                else Inl ''unexpected end of JSON input''),
      unmarshal_DeviceStateResponse =
        (\<lambda>body. if body = ''state''
                then Inr \<lparr>dsr_Data_Device = ''AA:BB:CC:DD:EE:FF:00:01'',
                          dsr_Data_Model = ''H6159'',
                          dsr_Data_Properties =
                            [[''brightness'' \<mapsto> JNum 50], [''powerState'' \<mapsto> JStr ''on'']],
                          dsr_Message = ''Success'', dsr_Code = 200\<rparr>
                else Inl ''unexpected end of JSON input''),
      unmarshal_ControlResponse =
        (\<lambda>body. if body = ''done'' then Inr \<lparr>cres_Code = 200, cres_Message = ''Success''\<rparr>
                else Inl ''unexpected end of JSON input''),
      NewRequest_error = (\<lambda>url. None),
      Sscanf_d = (\<lambda>s. if s = ''0'' then Some 0 else if s = ''1'' then Some 1 else None)\<rparr>"

text \<open>The cloud accepts every control command.\<close>

definition cloud_ok :: upstream where
  "cloud_ok tr = Replied 200 ''done''"

text \<open>No call gets through: the connection is refused.\<close>

definition upstream_down :: upstream where
  "upstream_down tr = Unreachable ''dial tcp: connect: connection refused''"

text \<open>The first account lists two devices; calls with any other key time out.\<close>

definition cloud_second_account_fails :: upstream where
  "cloud_second_account_fails tr =
     (if req_headers (last tr) = [(''Govee-API-Key'', ''key-0'')]
      then Replied 200 ''two devices''
      else Unreachable ''context deadline exceeded'')"


definition dim_request :: ControlRequest where
  "dim_request =
     \<lparr>ctl_DeviceID = ''AA:BB:CC:DD:EE:FF:00:01'', ctl_Model = ''H6159'',
      ctl_Command = ''dim'', ctl_Value = JNum 10, ctl_APIKeyIndex = 0\<rparr>"

text \<open>
  The remote-control microservice at its default address; it answers a pairing request
  without PIN by showing a PIN on the television, and one with a PIN by pairing.
\<close>

definition remote :: firetv_Client where
  "remote = firetv_NewClient []"

definition demo_firetv_library :: firetv_library where
  "demo_firetv_library =
     \<lparr>unmarshal_ErrorDetail = (\<lambda>body. None),
      unmarshal_DiscoverResponse =
        (\<lambda>body. if body = ''found''
                then Inr \<lparr>disc_Success = True,
                          disc_Devices = Some [\<lparr>dd_Name = ''Living Room Fire TV'',
                                                 dd_Host = ''10.0.0.5'', dd_Port = 6466,
                                                 dd_Model = []\<rparr>],
                          disc_Message = ''Found 1 device(s)''\<rparr>
                else Inl ''unexpected end of JSON input''),
      unmarshal_PairResponse =
        (\<lambda>body. if body = ''awaiting''
                then Inr \<lparr>pr_Success = True, pr_Message = ''Enter the PIN shown on the TV'',
                          pr_DeviceName = [], pr_AwaitingPIN = True\<rparr>
                else if body = ''paired''
                then Inr \<lparr>pr_Success = True, pr_Message = ''Paired'',
                          pr_DeviceName = ''Living Room Fire TV'', pr_AwaitingPIN = False\<rparr>
                else Inl ''unexpected end of JSON input''),
      unmarshal_CommandResponse =
        (\<lambda>body. if body = ''sent''
                then Inr \<lparr>cp_Success = True, cp_Message = ''Sent command: home'',
                          cp_Command = ''home''\<rparr>
                else Inl ''unexpected end of JSON input'')\<rparr>"

definition has_pin :: "http_request \<Rightarrow> bool" where
  "has_pin call = (case req_body call of Some (JObj m) \<Rightarrow> m ''pin'' \<noteq> None | _ \<Rightarrow> False)"

definition microservice :: upstream where
  "microservice tr =
     (if req_url (last tr) = ''http://localhost:9090/pair''
      then (if has_pin (last tr) then Replied 200 ''paired'' else Replied 200 ''awaiting'')
      else if req_url (last tr) = ''http://localhost:9090/command'' then Replied 200 ''sent''
      else Replied 200 ''found'')"

text \<open>
  A bridge configured as \<^verbatim>\<open>http://192.168.1.10:5050\<close> that knows the camera
  \<^verbatim>\<open>front-door\<close> and no other.
\<close>

definition bridge :: camera_Client where
  "bridge = camera_NewClient ''http://192.168.1.10:5050'' []"

definition demo_camera_library :: camera_library where
  "demo_camera_library =
     \<lparr>unmarshal_bridgeResponse =
        (\<lambda>body. if body = ''all cameras'' then Inr [(''front-door'', ''front door info'')]
                else Inl ''unexpected end of JSON input''),
      unmarshal_BridgeCameraInfo =
        (\<lambda>body. if body = ''front door info''
                then \<lparr>bci_NameURI = ''front-door'', bci_Nickname = ''Front Door'',
                      bci_ModelName = ''Wyze Cam v3'', bci_ProductModel = ''WYZE_CAKP2JFUS'',
                      bci_Connected = True, bci_Enabled = True\<rparr>
                else \<lparr>bci_NameURI = [], bci_Nickname = [], bci_ModelName = [],
                      bci_ProductModel = [], bci_Connected = False, bci_Enabled = False\<rparr>),
      unmarshal_generic = (\<lambda>body. Map.empty)\<rparr>"

definition bridge_up :: upstream where
  "bridge_up tr =
     (if req_url (last tr) = ''http://192.168.1.10:5050/api/'' then Replied 200 ''all cameras''
      else if req_url (last tr) = ''http://192.168.1.10:5050/api/front-door''
      then Replied 200 ''front door info''
      else Replied 404 ''Not Found'')"

text \<open>Query parameters: only \<^verbatim>\<open>name\<close> is given.\<close>

definition name_query :: "string \<Rightarrow> string \<Rightarrow> string" where
  "name_query name = (\<lambda>k. [])(''name'' := name)"

text \<open>Requests for the control, remote-command and state endpoints.\<close>

definition turn_on_request :: ControlRequest where
  "turn_on_request =
     \<lparr>ctl_DeviceID = ''AA:BB:CC:DD:EE:FF:00:01'', ctl_Model = ''H6159'',
      ctl_Command = ''turn'', ctl_Value = JBool True, ctl_APIKeyIndex = 0\<rparr>"




section \<open>Helper lemmas\<close>






lemma sendControlCommand_trace:
  "snd (sendControlCommand lib up c deviceID model cmdName v tr) =
     tr @ [control_request c deviceID model cmdName v]"
  by (simp add: sendControlCommand_def Do_def split: http_result.splits sum.splits)


lemma sendErrorResponse_failure:
  "resp_status (sendErrorResponse now deviceID message) = 400
   \<and> success_flag (resp_body (sendErrorResponse now deviceID message)) = Some False
   \<and> message_of (resp_body (sendErrorResponse now deviceID message)) = Some message"
  by (simp add: sendErrorResponse_def write_json_def encode_ControlResponse_def)

section \<open>The claims\<close>

subsection \<open>Brightness range\<close>

text \<open>
  C5. A brightness level below 0 or above 100 makes \<^verbatim>\<open>SetBrightness\<close> return the
  out-of-range error without handing any call to the HTTP client: the trace is the one
  it started with. For a level from 0 to 100 the range check passes: \<^verbatim>\<open>SetBrightness\<close>
  is \<^verbatim>\<open>sendControlCommand\<close> with the command \<^verbatim>\<open>brightness\<close> and that level, and exactly
  one call, the control request carrying the level, is handed to the HTTP client.
\<close>

theorem SetBrightness_range_check:
  "(level < 0 \<or> 100 < level \<longrightarrow>
      SetBrightness lib up c deviceID model level tr = (Some (BrightnessOutOfRange level), tr))
   \<and> (0 \<le> level \<and> level \<le> 100 \<longrightarrow>
        SetBrightness lib up c deviceID model level tr =
          sendControlCommand lib up c deviceID model ''brightness'' (VInt level) tr
        \<and> snd (SetBrightness lib up c deviceID model level tr) =
          tr @ [control_request c deviceID model ''brightness'' (VInt level)])"
proof (intro conjI impI)
  assume "level < 0 \<or> 100 < level"
  then show "SetBrightness lib up c deviceID model level tr
             = (Some (BrightnessOutOfRange level), tr)"
    by (auto simp add: SetBrightness_def)
next
  assume inside: "0 \<le> level \<and> level \<le> 100"
  then show run: "SetBrightness lib up c deviceID model level tr =
      sendControlCommand lib up c deviceID model ''brightness'' (VInt level) tr"
    by (simp add: SetBrightness_def)
  show "snd (SetBrightness lib up c deviceID model level tr) =
      tr @ [control_request c deviceID model ''brightness'' (VInt level)]"
    by (simp only: run sendControlCommand_trace)
qed

theorem SetBrightness_range_check_witness:
  "SetBrightness demo_govee_library cloud_ok account0 ''AA:BB:CC:DD:EE:FF:00:01'' ''H6159'' 101 []
     = (Some (BrightnessOutOfRange 101), [])
   \<and> SetBrightness demo_govee_library cloud_ok account0 ''AA:BB:CC:DD:EE:FF:00:01'' ''H6159'' (- 1) []
     = (Some (BrightnessOutOfRange (- 1)), [])
   \<and> snd (SetBrightness demo_govee_library cloud_ok account0 ''AA:BB:CC:DD:EE:FF:00:01'' ''H6159'' 100 [])
     = [control_request account0 ''AA:BB:CC:DD:EE:FF:00:01'' ''H6159'' ''brightness'' (VInt 100)]
   \<and> SetBrightness demo_govee_library cloud_ok account0 ''AA:BB:CC:DD:EE:FF:00:01'' ''H6159'' 0 []
     = (None, [control_request account0 ''AA:BB:CC:DD:EE:FF:00:01'' ''H6159'' ''brightness'' (VInt 0)])"
  using SetBrightness_range_check [of 101 demo_govee_library cloud_ok account0
          "''AA:BB:CC:DD:EE:FF:00:01''" "''H6159''" "[]"]
        SetBrightness_range_check [of "- 1" demo_govee_library cloud_ok account0
          "''AA:BB:CC:DD:EE:FF:00:01''" "''H6159''" "[]"]
        SetBrightness_range_check [of 100 demo_govee_library cloud_ok account0
          "''AA:BB:CC:DD:EE:FF:00:01''" "''H6159''" "[]"]
        SetBrightness_range_check [of 0 demo_govee_library cloud_ok account0
          "''AA:BB:CC:DD:EE:FF:00:01''" "''H6159''" "[]"]
  by (simp add: sendControlCommand_def Do_def cloud_ok_def demo_govee_library_def)

subsection \<open>Unknown commands\<close>

text \<open>
  C6. A control request (method \<^verbatim>\<open>POST\<close>, decodable body) whose command is none of
  \<^verbatim>\<open>turn\<close>, \<^verbatim>\<open>brightness\<close>, \<^verbatim>\<open>color\<close> hands no call to the HTTP client, and is answered
  with status 400 and \<^verbatim>\<open>success = false\<close>. When the account index of the request is
  valid, so that the request reaches the \<^verbatim>\<open>switch\<close>, the message is
  \<^verbatim>\<open>Unknown command: \<close> followed by the command.
\<close>

theorem unknown_command_rejected:
  assumes "ctl_Command req \<noteq> ''turn''"
    and "ctl_Command req \<noteq> ''brightness''"
    and "ctl_Command req \<noteq> ''color''"
  shows "snd (HandleControlDevice lib impl up now goveeClients ''POST'' (Some req) tr) = tr
    \<and> resp_status (fst (HandleControlDevice lib impl up now goveeClients ''POST'' (Some req) tr))
        = 400
    \<and> success_flag
          (resp_body (fst (HandleControlDevice lib impl up now goveeClients ''POST'' (Some req) tr)))
        = Some False
    \<and> (0 \<le> ctl_APIKeyIndex req \<and> ctl_APIKeyIndex req < int (length goveeClients) \<longrightarrow>
          HandleControlDevice lib impl up now goveeClients ''POST'' (Some req) tr =
            (sendErrorResponse now (ctl_DeviceID req) (''Unknown command: '' @ ctl_Command req),
             tr))"
proof -
  let ?bad = "ctl_APIKeyIndex req < 0 \<or> int (length goveeClients) \<le> ctl_APIKeyIndex req"
  have run: "HandleControlDevice lib impl up now goveeClients ''POST'' (Some req) tr =
      (sendErrorResponse now (ctl_DeviceID req)
         (if ?bad then ''Invalid API key index'' else ''Unknown command: '' @ ctl_Command req),
       tr)"
    using assms by (simp add: HandleControlDevice_def)
  show ?thesis
    by (simp only: run sendErrorResponse_failure fst_conv snd_conv) simp
qed

theorem unknown_command_rejected_witness:
  "HandleControlDevice demo_govee_library (\<lambda>x. 0) cloud_ok ''2026-02-15T17:45:00Z''
       [account0, account1] ''POST'' (Some dim_request) []
     = (sendErrorResponse ''2026-02-15T17:45:00Z'' ''AA:BB:CC:DD:EE:FF:00:01''
          ''Unknown command: dim'', [])
   \<and> resp_status (fst (HandleControlDevice demo_govee_library (\<lambda>x. 0) cloud_ok
          ''2026-02-15T17:45:00Z'' [account0, account1] ''POST'' (Some dim_request) [])) = 400"
  using unknown_command_rejected [of dim_request demo_govee_library "\<lambda>x. 0" cloud_ok
          "''2026-02-15T17:45:00Z''" "[account0, account1]" "[]"]
  by (simp add: dim_request_def sendErrorResponse_failure)

subsection \<open>Brightness conversion\<close>



subsection \<open>State extraction and aggregation\<close>












subsection \<open>Pairing phases\<close>

lemma sendPairRequest_trace:
  "snd (sendPairRequest lib up c reqBody tr) =
     tr @ [Post_call (ftv_baseURL c @ pairEndpoint) (marshal_PairRequest reqBody)]"
  by (simp add: sendPairRequest_def Do_def split: http_result.splits sum.splits option.splits)

lemma pair_reply_trace: "snd (pair_reply now r) = snd r"
  by (cases r) (simp add: pair_reply_def split: sum.splits)

lemma decode_absent_pin:
  "m ''host'' = Some (JStr host) \<Longrightarrow> m ''pin'' = None \<Longrightarrow>
     decode_pair_body (Some (JObj m)) = Some \<lparr>fpq_Host = host, fpq_PIN = []\<rparr>"
  by (simp add: decode_pair_body_def decode_FireTVPairRequest_def decode_string_field_def)

lemma decode_present_pin:
  "m ''host'' = Some (JStr host) \<Longrightarrow> m ''pin'' = Some (JStr pin) \<Longrightarrow>
     decode_pair_body (Some (JObj m)) = Some \<lparr>fpq_Host = host, fpq_PIN = pin\<rparr>"
  by (simp add: decode_pair_body_def decode_FireTVPairRequest_def decode_string_field_def)

lemma decode_empty_pin_as_absent:
  "m ''pin'' = Some (JStr []) \<Longrightarrow>
     decode_pair_body (Some (JObj m)) = decode_pair_body (Some (JObj (m(''pin'' := None))))"
  by (simp add: decode_pair_body_def decode_FireTVPairRequest_def decode_string_field_def)

text \<open>
  C7. A pair request whose body names a host and has no \<^verbatim>\<open>pin\<close> key is answered through
  \<^verbatim>\<open>StartPairing\<close>: one call goes to the microservice, a \<^verbatim>\<open>POST\<close> to \<^verbatim>\<open>/pair\<close> whose body
  holds the host and no PIN. A request whose body holds a PIN (a string that is not
  empty) is answered through \<^verbatim>\<open>FinishPairing\<close>: the one call holds the host and that
  PIN. In both cases the call is fixed by the body of the request alone, whatever calls
  were made before (the trace \<open>tr\<close> is arbitrary): the gateway keeps nothing between the
  two phases.
\<close>

theorem pair_phase_selected_by_pin:
  assumes "m ''host'' = Some (JStr host)" and "host \<noteq> []"
  shows "(m ''pin'' = None \<longrightarrow>
            HandleFireTVPair lib up now c ''POST'' (decode_pair_body (Some (JObj m))) tr =
              pair_reply now (StartPairing lib up c host tr)
            \<and> snd (HandleFireTVPair lib up now c ''POST'' (decode_pair_body (Some (JObj m))) tr) =
              tr @ [Post_call (ftv_baseURL c @ pairEndpoint) (JObj [''host'' \<mapsto> JStr host])])
     \<and> (\<forall>pin. m ''pin'' = Some (JStr pin) \<and> pin \<noteq> [] \<longrightarrow>
            HandleFireTVPair lib up now c ''POST'' (decode_pair_body (Some (JObj m))) tr =
              pair_reply now (FinishPairing lib up c host pin tr)
            \<and> snd (HandleFireTVPair lib up now c ''POST'' (decode_pair_body (Some (JObj m))) tr) =
              tr @ [Post_call (ftv_baseURL c @ pairEndpoint)
                      (JObj [''host'' \<mapsto> JStr host, ''pin'' \<mapsto> JStr pin])])"
proof (intro conjI impI allI)
  assume absent: "m ''pin'' = None"
  show run: "HandleFireTVPair lib up now c ''POST'' (decode_pair_body (Some (JObj m))) tr =
      pair_reply now (StartPairing lib up c host tr)"
    using assms by (simp add: decode_absent_pin [OF assms(1) absent] HandleFireTVPair_def)
  show "snd (HandleFireTVPair lib up now c ''POST'' (decode_pair_body (Some (JObj m))) tr) =
      tr @ [Post_call (ftv_baseURL c @ pairEndpoint) (JObj [''host'' \<mapsto> JStr host])]"
    by (simp only: run pair_reply_trace StartPairing_def sendPairRequest_trace)
       (simp add: marshal_PairRequest_def omitempty_def)
next
  fix pin
  assume present: "m ''pin'' = Some (JStr pin) \<and> pin \<noteq> []"
  then have dec: "decode_pair_body (Some (JObj m)) = Some \<lparr>fpq_Host = host, fpq_PIN = pin\<rparr>"
    using assms(1) by (simp add: decode_present_pin)
  show run: "HandleFireTVPair lib up now c ''POST'' (decode_pair_body (Some (JObj m))) tr =
      pair_reply now (FinishPairing lib up c host pin tr)"
    using assms present by (simp add: dec HandleFireTVPair_def)
  show "snd (HandleFireTVPair lib up now c ''POST'' (decode_pair_body (Some (JObj m))) tr) =
      tr @ [Post_call (ftv_baseURL c @ pairEndpoint)
              (JObj [''host'' \<mapsto> JStr host, ''pin'' \<mapsto> JStr pin])]"
    using present
    by (simp only: run pair_reply_trace FinishPairing_def sendPairRequest_trace)
       (simp add: marshal_PairRequest_def omitempty_def)
qed

theorem pair_phase_selected_by_pin_witness:
  "HandleFireTVPair demo_firetv_library microservice ''2026-02-15T17:45:00Z'' remote ''POST''
       (decode_pair_body (Some (JObj [''host'' \<mapsto> JStr ''10.0.0.5'']))) []
     = (write_json 200 (encode_FireTVPairResponse
          \<lparr>fpr_Success = True, fpr_Message = ''Enter the PIN shown on the TV'',
           fpr_DeviceName = [], fpr_AwaitingPIN = True,
           fpr_Timestamp = ''2026-02-15T17:45:00Z''\<rparr>),
        [Post_call ''http://localhost:9090/pair'' (JObj [''host'' \<mapsto> JStr ''10.0.0.5''])])
   \<and> HandleFireTVPair demo_firetv_library microservice ''2026-02-15T17:45:00Z'' remote ''POST''
       (decode_pair_body
          (Some (JObj [''host'' \<mapsto> JStr ''10.0.0.5'', ''pin'' \<mapsto> JStr ''123456''])))
       []
     = (write_json 200 (encode_FireTVPairResponse
          \<lparr>fpr_Success = True, fpr_Message = ''Paired'',
           fpr_DeviceName = ''Living Room Fire TV'', fpr_AwaitingPIN = False,
           fpr_Timestamp = ''2026-02-15T17:45:00Z''\<rparr>),
        [Post_call ''http://localhost:9090/pair''
           (JObj [''host'' \<mapsto> JStr ''10.0.0.5'', ''pin'' \<mapsto> JStr ''123456''])])"
proof -
  have url: "ftv_baseURL remote @ pairEndpoint = ''http://localhost:9090/pair''"
    by (simp add: remote_def firetv_NewClient_def defaultBaseURL_def pairEndpoint_def)
  have start: "StartPairing demo_firetv_library microservice remote ''10.0.0.5'' [] =
      (Inr \<lparr>pr_Success = True, pr_Message = ''Enter the PIN shown on the TV'',
            pr_DeviceName = [], pr_AwaitingPIN = True\<rparr>,
       [Post_call ''http://localhost:9090/pair'' (JObj [''host'' \<mapsto> JStr ''10.0.0.5''])])"
    by (simp add: StartPairing_def sendPairRequest_def Do_def url microservice_def has_pin_def
        Post_call_def marshal_PairRequest_def omitempty_def demo_firetv_library_def)
  have finish: "FinishPairing demo_firetv_library microservice remote ''10.0.0.5'' ''123456'' [] =
      (Inr \<lparr>pr_Success = True, pr_Message = ''Paired'',
            pr_DeviceName = ''Living Room Fire TV'', pr_AwaitingPIN = False\<rparr>,
       [Post_call ''http://localhost:9090/pair''
          (JObj [''host'' \<mapsto> JStr ''10.0.0.5'', ''pin'' \<mapsto> JStr ''123456''])])"
    by (simp add: FinishPairing_def sendPairRequest_def Do_def url microservice_def has_pin_def
        Post_call_def marshal_PairRequest_def omitempty_def demo_firetv_library_def)
  have a: "HandleFireTVPair demo_firetv_library microservice ''2026-02-15T17:45:00Z'' remote
        ''POST'' (decode_pair_body (Some (JObj [''host'' \<mapsto> JStr ''10.0.0.5'']))) []
      = pair_reply ''2026-02-15T17:45:00Z''
          (StartPairing demo_firetv_library microservice remote ''10.0.0.5'' [])"
    using pair_phase_selected_by_pin [of "[''host'' \<mapsto> JStr ''10.0.0.5'']" "''10.0.0.5''"
            demo_firetv_library microservice "''2026-02-15T17:45:00Z''" remote "[]"]
    by simp
  have b: "HandleFireTVPair demo_firetv_library microservice ''2026-02-15T17:45:00Z'' remote
        ''POST'' (decode_pair_body
          (Some (JObj [''host'' \<mapsto> JStr ''10.0.0.5'', ''pin'' \<mapsto> JStr ''123456''])))
        []
      = pair_reply ''2026-02-15T17:45:00Z''
          (FinishPairing demo_firetv_library microservice remote ''10.0.0.5'' ''123456'' [])"
    using pair_phase_selected_by_pin
            [of "[''host'' \<mapsto> JStr ''10.0.0.5'', ''pin'' \<mapsto> JStr ''123456'']" "''10.0.0.5''"
            demo_firetv_library microservice "''2026-02-15T17:45:00Z''" remote "[]"]
    by simp
  show ?thesis
    by (simp only: a b start finish) (simp add: pair_reply_def)
qed

text \<open>
  C9. A pair request whose body holds \<^verbatim>\<open>pin\<close> with the empty string decodes to the same
  request as the body without the key, so the handler answers both in the same way, with
  the same calls. When the body names a host, that answer comes through \<^verbatim>\<open>StartPairing\<close>
  and the one call to the microservice holds no PIN; in every other case no call is
  made. \<^verbatim>\<open>FinishPairing\<close> is not reached.
\<close>

theorem empty_pin_is_phase_one:
  assumes "m ''pin'' = Some (JStr [])"
  shows "decode_pair_body (Some (JObj m)) = decode_pair_body (Some (JObj (m(''pin'' := None))))
     \<and> HandleFireTVPair lib up now c verb (decode_pair_body (Some (JObj m))) tr =
         HandleFireTVPair lib up now c verb
           (decode_pair_body (Some (JObj (m(''pin'' := None))))) tr
     \<and> (\<forall>host. m ''host'' = Some (JStr host) \<and> host \<noteq> [] \<longrightarrow>
           HandleFireTVPair lib up now c ''POST'' (decode_pair_body (Some (JObj m))) tr =
             pair_reply now (StartPairing lib up c host tr)
           \<and> snd (HandleFireTVPair lib up now c ''POST'' (decode_pair_body (Some (JObj m))) tr) =
             tr @ [Post_call (ftv_baseURL c @ pairEndpoint) (JObj [''host'' \<mapsto> JStr host])])
     \<and> ((\<forall>host. m ''host'' = Some (JStr host) \<longrightarrow> host = []) \<longrightarrow>
           snd (HandleFireTVPair lib up now c verb (decode_pair_body (Some (JObj m))) tr) = tr)"
proof (intro conjI impI allI)
  show same: "decode_pair_body (Some (JObj m))
      = decode_pair_body (Some (JObj (m(''pin'' := None))))"
    using assms by (rule decode_empty_pin_as_absent)
  show "HandleFireTVPair lib up now c verb (decode_pair_body (Some (JObj m))) tr =
         HandleFireTVPair lib up now c verb
           (decode_pair_body (Some (JObj (m(''pin'' := None))))) tr"
    by (simp only: same)
next
  fix host
  assume named: "m ''host'' = Some (JStr host) \<and> host \<noteq> []"
  then have dec: "decode_pair_body (Some (JObj m)) = Some \<lparr>fpq_Host = host, fpq_PIN = []\<rparr>"
    using assms by (simp add: decode_present_pin)
  show run: "HandleFireTVPair lib up now c ''POST'' (decode_pair_body (Some (JObj m))) tr =
      pair_reply now (StartPairing lib up c host tr)"
    using named by (simp add: dec HandleFireTVPair_def)
  show "snd (HandleFireTVPair lib up now c ''POST'' (decode_pair_body (Some (JObj m))) tr) =
      tr @ [Post_call (ftv_baseURL c @ pairEndpoint) (JObj [''host'' \<mapsto> JStr host])]"
    by (simp only: run pair_reply_trace StartPairing_def sendPairRequest_trace)
       (simp add: marshal_PairRequest_def omitempty_def)
next
  assume nohost: "\<forall>host. m ''host'' = Some (JStr host) \<longrightarrow> host = []"
  show "snd (HandleFireTVPair lib up now c verb (decode_pair_body (Some (JObj m))) tr) = tr"
    using assms nohost
    by (auto simp add: HandleFireTVPair_def decode_pair_body_def decode_FireTVPairRequest_def
        decode_string_field_def split: option.splits json.splits)
qed

theorem empty_pin_is_phase_one_witness:
  "HandleFireTVPair demo_firetv_library microservice ''2026-02-15T17:45:00Z'' remote ''POST''
       (decode_pair_body (Some (JObj [''host'' \<mapsto> JStr ''10.0.0.5'', ''pin'' \<mapsto> JStr []]))) []
     = (write_json 200 (encode_FireTVPairResponse
          \<lparr>fpr_Success = True, fpr_Message = ''Enter the PIN shown on the TV'',
           fpr_DeviceName = [], fpr_AwaitingPIN = True,
           fpr_Timestamp = ''2026-02-15T17:45:00Z''\<rparr>),
        [Post_call ''http://localhost:9090/pair'' (JObj [''host'' \<mapsto> JStr ''10.0.0.5''])])
   \<and> decode_pair_body (Some (JObj [''host'' \<mapsto> JStr ''10.0.0.5'', ''pin'' \<mapsto> JStr []]))
     = decode_pair_body (Some (JObj [''host'' \<mapsto> JStr ''10.0.0.5'']))"
proof -
  have url: "ftv_baseURL remote @ pairEndpoint = ''http://localhost:9090/pair''"
    by (simp add: remote_def firetv_NewClient_def defaultBaseURL_def pairEndpoint_def)
  have start: "StartPairing demo_firetv_library microservice remote ''10.0.0.5'' [] =
      (Inr \<lparr>pr_Success = True, pr_Message = ''Enter the PIN shown on the TV'',
            pr_DeviceName = [], pr_AwaitingPIN = True\<rparr>,
       [Post_call ''http://localhost:9090/pair'' (JObj [''host'' \<mapsto> JStr ''10.0.0.5''])])"
    by (simp add: StartPairing_def sendPairRequest_def Do_def url microservice_def has_pin_def
        Post_call_def marshal_PairRequest_def omitempty_def demo_firetv_library_def)
  have p: "[''host'' \<mapsto> JStr ''10.0.0.5'', ''pin'' \<mapsto> JStr []] ''pin'' = Some (JStr [])"
    by simp
  have h: "[''host'' \<mapsto> JStr ''10.0.0.5'', ''pin'' \<mapsto> JStr []] ''host''
             = Some (JStr ''10.0.0.5'') \<and> ''10.0.0.5'' \<noteq> []"
    by simp
  have upd: "[''host'' \<mapsto> JStr ''10.0.0.5'', ''pin'' \<mapsto> JStr []](''pin'' := None)
             = [''host'' \<mapsto> JStr ''10.0.0.5'']"
    by (simp add: fun_eq_iff)
  note th = empty_pin_is_phase_one
      [where m = "[''host'' \<mapsto> JStr ''10.0.0.5'', ''pin'' \<mapsto> JStr []]"
         and lib = demo_firetv_library and up = microservice
         and now = "''2026-02-15T17:45:00Z''" and c = remote and verb = "''POST''"
         and tr = "[]", OF p]
  from th h have a: "HandleFireTVPair demo_firetv_library microservice ''2026-02-15T17:45:00Z''
        remote ''POST''
        (decode_pair_body (Some (JObj [''host'' \<mapsto> JStr ''10.0.0.5'', ''pin'' \<mapsto> JStr []]))) []
      = pair_reply ''2026-02-15T17:45:00Z''
          (StartPairing demo_firetv_library microservice remote ''10.0.0.5'' [])"
    by blast
  from th have "decode_pair_body
        (Some (JObj [''host'' \<mapsto> JStr ''10.0.0.5'', ''pin'' \<mapsto> JStr []]))
     = decode_pair_body
        (Some (JObj ([''host'' \<mapsto> JStr ''10.0.0.5'', ''pin'' \<mapsto> JStr []](''pin'' := None))))"
    by blast
  then have b: "decode_pair_body
        (Some (JObj [''host'' \<mapsto> JStr ''10.0.0.5'', ''pin'' \<mapsto> JStr []]))
     = decode_pair_body (Some (JObj [''host'' \<mapsto> JStr ''10.0.0.5'']))"
    by (simp only: upd)
  have c: "pair_reply ''2026-02-15T17:45:00Z''
          (StartPairing demo_firetv_library microservice remote ''10.0.0.5'' [])
     = (write_json 200 (encode_FireTVPairResponse
          \<lparr>fpr_Success = True, fpr_Message = ''Enter the PIN shown on the TV'',
           fpr_DeviceName = [], fpr_AwaitingPIN = True,
           fpr_Timestamp = ''2026-02-15T17:45:00Z''\<rparr>),
        [Post_call ''http://localhost:9090/pair'' (JObj [''host'' \<mapsto> JStr ''10.0.0.5''])])"
    by (simp only: start) (simp add: pair_reply_def)
  from a b c show ?thesis by (simp only:)
qed

subsection \<open>Stream URLs\<close>

lemma parseCameraEntry_uri:
  "cam_NameURI (parseCameraEntry lib nameURI rawData bridgeHost) =
     (if bci_NameURI (unmarshal_BridgeCameraInfo lib rawData) = [] then nameURI
      else bci_NameURI (unmarshal_BridgeCameraInfo lib rawData))"
  by (simp add: parseCameraEntry_def Let_def)

lemma parseCameraEntry_streams:
  "cam_Streams (parseCameraEntry lib nameURI rawData bridgeHost) =
     \<lparr>su_HLS = ''http://'' @ bridgeHost @ '':8888/''
                 @ cam_NameURI (parseCameraEntry lib nameURI rawData bridgeHost)
                 @ ''/stream.m3u8'',
      su_RTSP = ''rtsp://'' @ bridgeHost @ '':8554/''
                  @ cam_NameURI (parseCameraEntry lib nameURI rawData bridgeHost),
      su_WebRTC = ''http://'' @ bridgeHost @ '':8889/''
                    @ cam_NameURI (parseCameraEntry lib nameURI rawData bridgeHost) @ ''/''\<rparr>
   \<and> cam_StreamURL (parseCameraEntry lib nameURI rawData bridgeHost) =
       su_HLS (cam_Streams (parseCameraEntry lib nameURI rawData bridgeHost))"
  by (simp add: parseCameraEntry_def Let_def hlsPort_def rtspPort_def webrtcPort_def)

lemma extractHost_example: "extractHost ''http://192.168.1.10:5050'' = ''192.168.1.10''"
  by (simp add: extractHost_def)

text \<open>
  C8. The three stream URLs of a camera entry are built from the bridge host, the
  URL-safe name of the entry and the ports 8888, 8554 and 8889, and from nothing else;
  the primary stream URL is the HLS one. The URL-safe name of the entry is the \<^verbatim>\<open>name_uri\<close>
  the bridge reports, or the name asked for when the bridge reports none. The host is
  the one of the configured bridge URL: \<^verbatim>\<open>192.168.1.10\<close> for \<^verbatim>\<open>http://192.168.1.10:5050\<close>.
  For that host and the camera \<^verbatim>\<open>front-door\<close> the HLS URL is
  \<^verbatim>\<open>http://192.168.1.10:8888/front-door/stream.m3u8\<close>.
\<close>

theorem stream_urls_derived:
  "cam_Streams (parseCameraEntry lib nameURI rawData bridgeHost) =
     \<lparr>su_HLS = ''http://'' @ bridgeHost @ '':8888/''
                 @ cam_NameURI (parseCameraEntry lib nameURI rawData bridgeHost)
                 @ ''/stream.m3u8'',
      su_RTSP = ''rtsp://'' @ bridgeHost @ '':8554/''
                  @ cam_NameURI (parseCameraEntry lib nameURI rawData bridgeHost),
      su_WebRTC = ''http://'' @ bridgeHost @ '':8889/''
                    @ cam_NameURI (parseCameraEntry lib nameURI rawData bridgeHost) @ ''/''\<rparr>
   \<and> cam_StreamURL (parseCameraEntry lib nameURI rawData bridgeHost) =
       su_HLS (cam_Streams (parseCameraEntry lib nameURI rawData bridgeHost))
   \<and> cam_NameURI (parseCameraEntry lib nameURI rawData bridgeHost) =
       (if bci_NameURI (unmarshal_BridgeCameraInfo lib rawData) = [] then nameURI
        else bci_NameURI (unmarshal_BridgeCameraInfo lib rawData))
   \<and> extractHost ''http://192.168.1.10:5050'' = ''192.168.1.10''
   \<and> (cam_NameURI (parseCameraEntry lib nameURI rawData ''192.168.1.10'') = ''front-door''
      \<longrightarrow> su_HLS (cam_Streams (parseCameraEntry lib nameURI rawData ''192.168.1.10'')) =
            ''http://192.168.1.10:8888/front-door/stream.m3u8'')"
proof (intro conjI impI)
  assume "cam_NameURI (parseCameraEntry lib nameURI rawData ''192.168.1.10'') = ''front-door''"
  then show "su_HLS (cam_Streams (parseCameraEntry lib nameURI rawData ''192.168.1.10'')) =
            ''http://192.168.1.10:8888/front-door/stream.m3u8''"
    using parseCameraEntry_streams [of lib nameURI rawData "''192.168.1.10''"] by simp
qed (simp_all only: parseCameraEntry_streams parseCameraEntry_uri extractHost_example)

theorem stream_urls_derived_witness:
  "fst (GetCamera demo_camera_library bridge_up bridge ''front-door'' []) =
     Inr \<lparr>cam_Name = ''Front Door'', cam_NameURI = ''front-door'', cam_Model = ''Wyze Cam v3'',
          cam_Status = ''online'', cam_Enabled = True,
          cam_StreamURL = ''http://192.168.1.10:8888/front-door/stream.m3u8'',
          cam_Streams = \<lparr>su_HLS = ''http://192.168.1.10:8888/front-door/stream.m3u8'',
                         su_RTSP = ''rtsp://192.168.1.10:8554/front-door'',
                         su_WebRTC = ''http://192.168.1.10:8889/front-door/''\<rparr>\<rparr>
   \<and> su_HLS (cam_Streams (parseCameraEntry demo_camera_library ''front-door''
                 ''front door info'' ''192.168.1.10'')) =
       ''http://192.168.1.10:8888/front-door/stream.m3u8''"
proof -
  have host: "extractHost (cl_bridgeURL bridge) = ''192.168.1.10''"
    by (simp add: bridge_def camera_NewClient_def TrimRight_slash_def extractHost_def)
  have url: "with_api_key bridge (cl_bridgeURL bridge @ ''/api/front-door'') =
      ''http://192.168.1.10:5050/api/front-door''"
    by (simp add: bridge_def camera_NewClient_def TrimRight_slash_def with_api_key_def)
  have entry: "parseCameraEntry demo_camera_library ''front-door'' ''front door info''
      ''192.168.1.10'' =
     \<lparr>cam_Name = ''Front Door'', cam_NameURI = ''front-door'', cam_Model = ''Wyze Cam v3'',
          cam_Status = ''online'', cam_Enabled = True,
          cam_StreamURL = ''http://192.168.1.10:8888/front-door/stream.m3u8'',
          cam_Streams = \<lparr>su_HLS = ''http://192.168.1.10:8888/front-door/stream.m3u8'',
                         su_RTSP = ''rtsp://192.168.1.10:8554/front-door'',
                         su_WebRTC = ''http://192.168.1.10:8889/front-door/''\<rparr>\<rparr>"
    by (simp add: parseCameraEntry_def demo_camera_library_def hlsPort_def rtspPort_def
        webrtcPort_def Let_def)
  have a: "fst (GetCamera demo_camera_library bridge_up bridge ''front-door'' []) =
     Inr (parseCameraEntry demo_camera_library ''front-door'' ''front door info''
            ''192.168.1.10'')"
    by (simp add: GetCamera_def Do_def url host bridge_up_def Get_call_def)
  have name: "cam_NameURI (parseCameraEntry demo_camera_library ''front-door''
      ''front door info'' ''192.168.1.10'') = ''front-door''"
    by (simp add: entry)
  have b: "su_HLS (cam_Streams (parseCameraEntry demo_camera_library ''front-door''
                 ''front door info'' ''192.168.1.10'')) =
       ''http://192.168.1.10:8888/front-door/stream.m3u8''"
    using stream_urls_derived [of demo_camera_library "''front-door''" "''front door info''"
            "''192.168.1.10''"] name
    by blast
  from a b show ?thesis by (simp only: entry)
qed

subsection \<open>Statuses when the upstream is unreachable\<close>








lemma sendFireTVError_failure:
  "resp_status (sendFireTVError now code message) = code
   \<and> success_flag (resp_body (sendFireTVError now code message)) = Some False
   \<and> message_of (resp_body (sendFireTVError now code message)) = Some message
   \<and> has_envelope (resp_body (sendFireTVError now code message))"
  by (simp add: sendFireTVError_def write_json_def encode_FireTVCommandResponse_def)

lemma sendCameraError_failure:
  "resp_status (sendCameraError code message) = code
   \<and> success_flag (resp_body (sendCameraError code message)) = Some False
   \<and> message_of (resp_body (sendCameraError code message)) = Some message
   \<and> has_envelope (resp_body (sendCameraError code message))"
  by (simp add: sendCameraError_def write_json_def encode_CamerasResponse_def)














subsection \<open>The response envelope\<close>

lemma http_Error_plain:
  "resp_body (http_Error msg code) = Text (msg @ [CHR 0x0A])
   \<and> resp_status (http_Error msg code) = code
   \<and> \<not> has_envelope (resp_body (http_Error msg code))"
  by (simp add: http_Error_def)

lemma sendErrorResponse_enveloped:
  "has_envelope (resp_body (sendErrorResponse now deviceID message))"
  by (simp add: sendErrorResponse_def write_json_def encode_ControlResponse_def)

lemma control_reply_enveloped:
  "has_envelope (resp_body (fst (control_reply now deviceID r)))
   \<and> (resp_status (fst (control_reply now deviceID r)) = 200
        \<and> success_flag (resp_body (fst (control_reply now deviceID r))) = Some True
      \<or> resp_status (fst (control_reply now deviceID r)) = 400
        \<and> success_flag (resp_body (fst (control_reply now deviceID r))) = Some False)"
proof (cases r)
  case (Pair err tr')
  then show ?thesis
    by (cases err)
       (simp_all add: control_reply_def sendErrorResponse_failure sendErrorResponse_enveloped
          write_json_def encode_ControlResponse_def)
qed

lemma HandleControlDevice_enveloped:
  "has_envelope (resp_body
     (fst (HandleControlDevice lib impl up now goveeClients ''POST'' (Some req) tr)))
   \<and> (resp_status (fst (HandleControlDevice lib impl up now goveeClients ''POST'' (Some req) tr))
          = 200
        \<and> success_flag (resp_body
             (fst (HandleControlDevice lib impl up now goveeClients ''POST'' (Some req) tr)))
          = Some True
      \<or> resp_status (fst (HandleControlDevice lib impl up now goveeClients ''POST'' (Some req) tr))
          = 400
        \<and> success_flag (resp_body
             (fst (HandleControlDevice lib impl up now goveeClients ''POST'' (Some req) tr)))
          = Some False)"
  by (simp add: HandleControlDevice_def Let_def sendErrorResponse_failure
        sendErrorResponse_enveloped control_reply_enveloped
      split: json.splits option.splits)

lemma pair_reply_enveloped:
  "has_envelope (resp_body (fst (pair_reply now r)))
   \<and> (resp_status (fst (pair_reply now r)) = 200
      \<or> resp_status (fst (pair_reply now r)) = 400
        \<and> success_flag (resp_body (fst (pair_reply now r))) = Some False)"
proof (cases r)
  case (Pair res tr')
  then show ?thesis
    by (cases res)
       (simp_all add: pair_reply_def sendFireTVError_failure write_json_def
          encode_FireTVPairResponse_def omitempty_def)
qed

lemma HandleFireTVPair_enveloped:
  "has_envelope (resp_body (fst (HandleFireTVPair lib up now c ''POST'' (Some req) tr)))
   \<and> (resp_status (fst (HandleFireTVPair lib up now c ''POST'' (Some req) tr)) = 200
      \<or> resp_status (fst (HandleFireTVPair lib up now c ''POST'' (Some req) tr)) = 400
        \<and> success_flag (resp_body (fst (HandleFireTVPair lib up now c ''POST'' (Some req) tr)))
            = Some False)"
  by (simp add: HandleFireTVPair_def sendFireTVError_failure pair_reply_enveloped)

lemma HandleFireTVCommand_enveloped:
  "has_envelope (resp_body (fst (HandleFireTVCommand lib up now c ''POST'' (Some req) tr)))
   \<and> (resp_status (fst (HandleFireTVCommand lib up now c ''POST'' (Some req) tr)) = 200
      \<or> resp_status (fst (HandleFireTVCommand lib up now c ''POST'' (Some req) tr)) = 400
        \<and> success_flag (resp_body (fst (HandleFireTVCommand lib up now c ''POST'' (Some req) tr)))
            = Some False)"
proof -
  obtain res tr' where call: "SendCommand lib up c (fcq_Host req) (fcq_Command req)
      (fcq_Text req) (fcq_AppPackage req) tr = (res, tr')"
    by (cases "SendCommand lib up c (fcq_Host req) (fcq_Command req) (fcq_Text req)
      (fcq_AppPackage req) tr")
  show ?thesis
    by (cases res)
       (simp_all add: HandleFireTVCommand_def call sendFireTVError_failure write_json_def
          encode_FireTVCommandResponse_def)
qed

lemma HandleFireTVDiscover_enveloped:
  "has_envelope (resp_body (fst (HandleFireTVDiscover lib up now c ''GET'' tr)))
   \<and> (resp_status (fst (HandleFireTVDiscover lib up now c ''GET'' tr)) = 200
      \<or> resp_status (fst (HandleFireTVDiscover lib up now c ''GET'' tr)) = 500
        \<and> success_flag (resp_body (fst (HandleFireTVDiscover lib up now c ''GET'' tr)))
            = Some False)"
proof -
  obtain res tr' where call: "Discover lib up c tr = (res, tr')"
    by (cases "Discover lib up c tr")
  show ?thesis
    by (cases res)
       (simp_all add: HandleFireTVDiscover_def call sendFireTVError_failure write_json_def
          encode_DiscoverResponse_def)
qed

lemma HandleGetCameras_enveloped:
  "has_envelope (resp_body (fst (HandleGetCameras lib up c ''GET'' tr)))
   \<and> (resp_status (fst (HandleGetCameras lib up c ''GET'' tr)) = 200
        \<and> success_flag (resp_body (fst (HandleGetCameras lib up c ''GET'' tr))) = Some True
      \<or> resp_status (fst (HandleGetCameras lib up c ''GET'' tr)) = 500
        \<and> success_flag (resp_body (fst (HandleGetCameras lib up c ''GET'' tr))) = Some False)"
proof -
  obtain res tr' where call: "GetCameras lib up c tr = (res, tr')"
    by (cases "GetCameras lib up c tr")
  show ?thesis
    by (cases res)
       (simp_all add: HandleGetCameras_def call sendCameraError_failure write_json_def
          encode_CamerasResponse_def)
qed

lemma HandleGetCameraStream_enveloped:
  "has_envelope (resp_body (fst (HandleGetCameraStream lib up c ''GET'' query tr)))
   \<and> (resp_status (fst (HandleGetCameraStream lib up c ''GET'' query tr)) = 200
        \<and> success_flag (resp_body (fst (HandleGetCameraStream lib up c ''GET'' query tr)))
            = Some True
      \<or> resp_status (fst (HandleGetCameraStream lib up c ''GET'' query tr)) = 400
        \<and> success_flag (resp_body (fst (HandleGetCameraStream lib up c ''GET'' query tr)))
            = Some False
      \<or> resp_status (fst (HandleGetCameraStream lib up c ''GET'' query tr)) = 404
        \<and> success_flag (resp_body (fst (HandleGetCameraStream lib up c ''GET'' query tr)))
            = Some False)"
proof -
  obtain res tr' where call: "GetCamera lib up c (query ''name'') tr = (res, tr')"
    by (cases "GetCamera lib up c (query ''name'') tr")
  show ?thesis
    by (cases res)
       (simp_all add: HandleGetCameraStream_def Let_def call sendCameraError_failure
          write_json_def encode_StreamResponse_def)
qed

lemma HandleLightbulbToggle_enveloped:
  "has_envelope (resp_body (HandleLightbulbToggle now ''POST'' (Some isOn)))
   \<and> resp_status (HandleLightbulbToggle now ''POST'' (Some isOn)) = 200
   \<and> success_flag (resp_body (HandleLightbulbToggle now ''POST'' (Some isOn))) = Some True"
  by (simp add: HandleLightbulbToggle_def write_json_def)

lemma HandleGetDevices_no_envelope:
  "\<not> has_envelope (resp_body (fst (HandleGetDevices lib up goveeClients method tr)))"
  by (simp add: HandleGetDevices_def http_Error_plain write_json_def encode_DeviceResponses_def
      split: prod.splits)

lemma HandleGetDeviceState_no_envelope:
  "\<not> has_envelope (resp_body (fst (HandleGetDeviceState lib up goveeClients method query tr)))"
  by (simp add: HandleGetDeviceState_def Let_def http_Error_plain write_json_def
        encode_StateResponse_def
      split: option.splits prod.splits sum.splits)

lemma HandleHealth_no_envelope: "\<not> has_envelope (resp_body HandleHealth)"
  by (simp add: HandleHealth_def write_json_def)

lemma undecodable_plain:
  "fst (HandleControlDevice glib impl up now goveeClients ''POST'' None tr)
     = http_Error ''Invalid request body'' 400"
  "fst (HandleFireTVPair flib up now ftv ''POST'' None tr) = http_Error ''Invalid request body'' 400"
  "fst (HandleFireTVCommand flib up now ftv ''POST'' None tr)
     = http_Error ''Invalid request body'' 400"
  "HandleLightbulbToggle now ''POST'' None = http_Error ''Invalid request body'' 400"
  by (simp_all add: HandleControlDevice_def HandleFireTVPair_def HandleFireTVCommand_def
      HandleLightbulbToggle_def)

text \<open>
  C1, as stated, fails. A request with the wrong method, or with a body that cannot be
  decoded, is answered by \<^verbatim>\<open>http.Error\<close>: the body is the plain text of the message and a
  newline, not a JSON document. The device list is a JSON array and the health document
  has no \<^verbatim>\<open>success\<close> key.
\<close>

theorem envelope_counterexample:
  "fst (HandleControlDevice demo_govee_library (\<lambda>x. 0) cloud_ok ''2026-02-15T17:45:00Z''
          [account0] ''GET'' None [])
     = \<lparr>resp_status = 405, resp_contentType = ''text/plain; charset=utf-8'',
        resp_body = Text (''Method not allowed'' @ [CHR 0x0A])\<rparr>
   \<and> \<not> has_envelope (resp_body (fst (HandleControlDevice demo_govee_library (\<lambda>x. 0) cloud_ok
          ''2026-02-15T17:45:00Z'' [account0] ''GET'' None [])))
   \<and> HandleLightbulbToggle ''2026-02-15T17:45:00Z'' ''POST'' None
     = \<lparr>resp_status = 400, resp_contentType = ''text/plain; charset=utf-8'',
        resp_body = Text (''Invalid request body'' @ [CHR 0x0A])\<rparr>
   \<and> \<not> has_envelope (resp_body (HandleLightbulbToggle ''2026-02-15T17:45:00Z'' ''POST'' None))
   \<and> \<not> has_envelope (resp_body (fst (HandleGetDevices demo_govee_library
          cloud_second_account_fails [account0, account1] ''GET'' [])))
   \<and> \<not> has_envelope (resp_body HandleHealth)"
  by (simp add: HandleControlDevice_def HandleLightbulbToggle_def http_Error_def
      HandleGetDevices_no_envelope HandleHealth_no_envelope)

text \<open>
  C1, amended. For a request with the method of the handler and, where the handler
  reads a body, a body that decodes, every response of the light control, pairing,
  remote command, discovery, camera list, camera stream and lightbulb handlers is a JSON
  object with a boolean \<^verbatim>\<open>success\<close> and a string \<^verbatim>\<open>message\<close>. Its status is 200 or, with
  \<^verbatim>\<open>success = false\<close>, the error status of the handler: 400 for light control, pairing,
  remote command and a stream request without name, 404 for a failed camera lookup, 500
  for discovery and the camera list. Every handler answers another method with status
  405, and a body that does not decode with status 400, as plain text outside the
  envelope. The device list, the device state and the health document are never in the
  envelope.
\<close>

theorem responses_in_envelope:
  "(has_envelope (resp_body
        (fst (HandleControlDevice glib impl up now goveeClients ''POST'' (Some control) tr)))
      \<and> (resp_status (fst (HandleControlDevice glib impl up now goveeClients ''POST''
                              (Some control) tr)) = 200
           \<and> success_flag (resp_body (fst (HandleControlDevice glib impl up now goveeClients
                              ''POST'' (Some control) tr))) = Some True
         \<or> resp_status (fst (HandleControlDevice glib impl up now goveeClients ''POST''
                              (Some control) tr)) = 400
           \<and> success_flag (resp_body (fst (HandleControlDevice glib impl up now goveeClients
                              ''POST'' (Some control) tr))) = Some False))
   \<and> (has_envelope (resp_body (fst (HandleFireTVPair flib up now ftv ''POST'' (Some pair) tr)))
      \<and> (resp_status (fst (HandleFireTVPair flib up now ftv ''POST'' (Some pair) tr)) = 200
         \<or> resp_status (fst (HandleFireTVPair flib up now ftv ''POST'' (Some pair) tr)) = 400
           \<and> success_flag (resp_body (fst (HandleFireTVPair flib up now ftv ''POST''
                              (Some pair) tr))) = Some False))
   \<and> (has_envelope (resp_body
        (fst (HandleFireTVCommand flib up now ftv ''POST'' (Some command) tr)))
      \<and> (resp_status (fst (HandleFireTVCommand flib up now ftv ''POST'' (Some command) tr)) = 200
         \<or> resp_status (fst (HandleFireTVCommand flib up now ftv ''POST'' (Some command) tr))
              = 400
           \<and> success_flag (resp_body (fst (HandleFireTVCommand flib up now ftv ''POST''
                              (Some command) tr))) = Some False))
   \<and> (has_envelope (resp_body (fst (HandleFireTVDiscover flib up now ftv ''GET'' tr)))
      \<and> (resp_status (fst (HandleFireTVDiscover flib up now ftv ''GET'' tr)) = 200
         \<or> resp_status (fst (HandleFireTVDiscover flib up now ftv ''GET'' tr)) = 500
           \<and> success_flag (resp_body (fst (HandleFireTVDiscover flib up now ftv ''GET'' tr)))
               = Some False))
   \<and> (has_envelope (resp_body (fst (HandleGetCameras clib up cam ''GET'' tr)))
      \<and> (resp_status (fst (HandleGetCameras clib up cam ''GET'' tr)) = 200
           \<and> success_flag (resp_body (fst (HandleGetCameras clib up cam ''GET'' tr))) = Some True
         \<or> resp_status (fst (HandleGetCameras clib up cam ''GET'' tr)) = 500
           \<and> success_flag (resp_body (fst (HandleGetCameras clib up cam ''GET'' tr)))
               = Some False))
   \<and> (has_envelope (resp_body (fst (HandleGetCameraStream clib up cam ''GET'' query tr)))
      \<and> (resp_status (fst (HandleGetCameraStream clib up cam ''GET'' query tr)) = 200
           \<and> success_flag (resp_body (fst (HandleGetCameraStream clib up cam ''GET'' query tr)))
               = Some True
         \<or> resp_status (fst (HandleGetCameraStream clib up cam ''GET'' query tr)) = 400
           \<and> success_flag (resp_body (fst (HandleGetCameraStream clib up cam ''GET'' query tr)))
               = Some False
         \<or> resp_status (fst (HandleGetCameraStream clib up cam ''GET'' query tr)) = 404
           \<and> success_flag (resp_body (fst (HandleGetCameraStream clib up cam ''GET'' query tr)))
               = Some False))
   \<and> (has_envelope (resp_body (HandleLightbulbToggle now ''POST'' (Some isOn)))
      \<and> resp_status (HandleLightbulbToggle now ''POST'' (Some isOn)) = 200
      \<and> success_flag (resp_body (HandleLightbulbToggle now ''POST'' (Some isOn))) = Some True)
   \<and> (m \<noteq> ''POST'' \<longrightarrow>
        fst (HandleControlDevice glib impl up now goveeClients m anyControl tr)
          = http_Error ''Method not allowed'' 405
        \<and> fst (HandleFireTVPair flib up now ftv m anyPair tr)
          = http_Error ''Method not allowed'' 405
        \<and> fst (HandleFireTVCommand flib up now ftv m anyCommand tr)
          = http_Error ''Method not allowed'' 405
        \<and> HandleLightbulbToggle now m anyToggle = http_Error ''Method not allowed'' 405)
   \<and> (g \<noteq> ''GET'' \<longrightarrow>
        fst (HandleFireTVDiscover flib up now ftv g tr) = http_Error ''Method not allowed'' 405
        \<and> fst (HandleGetCameras clib up cam g tr) = http_Error ''Method not allowed'' 405
        \<and> fst (HandleGetCameraStream clib up cam g query tr)
          = http_Error ''Method not allowed'' 405
        \<and> fst (HandleGetDevices glib up goveeClients g tr)
          = http_Error ''Method not allowed'' 405
        \<and> fst (HandleGetDeviceState glib up goveeClients g query tr)
          = http_Error ''Method not allowed'' 405)
   \<and> (fst (HandleControlDevice glib impl up now goveeClients ''POST'' None tr)
          = http_Error ''Invalid request body'' 400
      \<and> fst (HandleFireTVPair flib up now ftv ''POST'' None tr)
          = http_Error ''Invalid request body'' 400
      \<and> fst (HandleFireTVCommand flib up now ftv ''POST'' None tr)
          = http_Error ''Invalid request body'' 400
      \<and> HandleLightbulbToggle now ''POST'' None = http_Error ''Invalid request body'' 400)
   \<and> (resp_body (http_Error msg code) = Text (msg @ [CHR 0x0A])
      \<and> resp_status (http_Error msg code) = code
      \<and> \<not> has_envelope (resp_body (http_Error msg code)))
   \<and> \<not> has_envelope (resp_body (fst (HandleGetDevices glib up goveeClients g tr)))
   \<and> \<not> has_envelope (resp_body (fst (HandleGetDeviceState glib up goveeClients g query tr)))
   \<and> \<not> has_envelope (resp_body HandleHealth)"
proof (intro conjI impI)
  assume post: "m \<noteq> ''POST''"
  show "fst (HandleControlDevice glib impl up now goveeClients m anyControl tr)
      = http_Error ''Method not allowed'' 405"
    using post by (simp add: HandleControlDevice_def)
  show "fst (HandleFireTVPair flib up now ftv m anyPair tr) = http_Error ''Method not allowed'' 405"
    using post by (simp add: HandleFireTVPair_def)
  show "fst (HandleFireTVCommand flib up now ftv m anyCommand tr)
      = http_Error ''Method not allowed'' 405"
    using post by (simp add: HandleFireTVCommand_def)
  show "HandleLightbulbToggle now m anyToggle = http_Error ''Method not allowed'' 405"
    using post by (simp add: HandleLightbulbToggle_def)
next
  assume get: "g \<noteq> ''GET''"
  show "fst (HandleFireTVDiscover flib up now ftv g tr) = http_Error ''Method not allowed'' 405"
    using get by (simp add: HandleFireTVDiscover_def)
  show "fst (HandleGetCameras clib up cam g tr) = http_Error ''Method not allowed'' 405"
    using get by (simp add: HandleGetCameras_def)
  show "fst (HandleGetCameraStream clib up cam g query tr) = http_Error ''Method not allowed'' 405"
    using get by (simp add: HandleGetCameraStream_def)
  show "fst (HandleGetDevices glib up goveeClients g tr) = http_Error ''Method not allowed'' 405"
    using get by (simp add: HandleGetDevices_def)
  show "fst (HandleGetDeviceState glib up goveeClients g query tr)
      = http_Error ''Method not allowed'' 405"
    using get by (simp add: HandleGetDeviceState_def)
qed (simp_all only: HandleControlDevice_enveloped HandleFireTVPair_enveloped
      HandleFireTVCommand_enveloped HandleFireTVDiscover_enveloped HandleGetCameras_enveloped
      HandleGetCameraStream_enveloped HandleLightbulbToggle_enveloped undecodable_plain
      http_Error_plain HandleGetDevices_no_envelope HandleGetDeviceState_no_envelope
      HandleHealth_no_envelope has_envelope.simps not_False_eq_True)

theorem responses_in_envelope_witness:
  "has_envelope (resp_body (fst (HandleControlDevice demo_govee_library (\<lambda>x. 0) upstream_down
       ''2026-02-15T17:45:00Z'' [account0] ''POST'' (Some turn_on_request) [])))
   \<and> has_envelope (resp_body (fst (HandleGetCameraStream demo_camera_library upstream_down bridge
       ''GET'' (name_query ''front-door'') [])))
   \<and> has_envelope (resp_body (HandleLightbulbToggle ''2026-02-15T17:45:00Z'' ''POST'' (Some True)))
   \<and> fst (HandleControlDevice demo_govee_library (\<lambda>x. 0) upstream_down
       ''2026-02-15T17:45:00Z'' [account0] ''GET'' (Some turn_on_request) [])
     = http_Error ''Method not allowed'' 405
   \<and> HandleLightbulbToggle ''2026-02-15T17:45:00Z'' ''GET'' (Some True)
     = http_Error ''Method not allowed'' 405
   \<and> fst (HandleGetCameras demo_camera_library upstream_down bridge ''POST'' [])
     = http_Error ''Method not allowed'' 405
   \<and> fst (HandleGetDevices demo_govee_library upstream_down [account0] ''POST'' [])
     = http_Error ''Method not allowed'' 405"
proof -
  note th = responses_in_envelope
      [where glib = demo_govee_library and impl = "\<lambda>x. 0" and up = upstream_down
         and now = "''2026-02-15T17:45:00Z''" and goveeClients = "[account0]"
         and control = turn_on_request and tr = "[]" and clib = demo_camera_library
         and cam = bridge and query = "name_query ''front-door''" and isOn = True
         and m = "''GET''" and anyControl = "Some turn_on_request" and anyToggle = "Some True"
         and g = "''POST''"]
  have m: "''GET'' \<noteq> ''POST''" by simp
  have g: "''POST'' \<noteq> ''GET''" by simp
  from th m g show ?thesis by simp
qed

end
